theory Spec2Isabelle
  imports Main
begin

section \<open>Parsed XML documents\<close>

text \<open>
  The validators work on the tree that \<^verbatim>\<open>xml.etree.ElementTree.fromstring\<close> returns.
  An element carries its tag, its text (\<^verbatim>\<open>None\<close> when the element has no character data
  before its first child or its end tag) and its child elements in document order.
  Attributes and tails are never read by the validation code and are left out.
  Strings are byte lists holding the UTF-8 encoding of the Python string: the code only
  concatenates strings, compares them and tests ASCII characters, and UTF-8 is an
  injective homomorphism for all of that.
\<close>

datatype element = Element (tag: string) (etext: "string option") (children: "element list")

text \<open>
  The parser is the host library, not code of the repository: it is a parameter of the
  model. It either raises \<^verbatim>\<open>ET.ParseError\<close> with a message or returns the root.
\<close>

datatype parse_result = ParseError string | Parsed element

type_synonym xml_parser = "string \<Rightarrow> parse_result"

text \<open>\<^verbatim>\<open>elem.find(t)\<close> for a plain tag name: the first direct child with that tag.\<close>

definition find_elem :: "element \<Rightarrow> string \<Rightarrow> element option" where
  "find_elem e t = List.find (\<lambda>c. tag c = t) (children e)"

text \<open>\<^verbatim>\<open>elem.findall(t)\<close>: every direct child with that tag.\<close>

definition findall :: "element \<Rightarrow> string \<Rightarrow> element list" where
  "findall e t = filter (\<lambda>c. tag c = t) (children e)"

text \<open>Python truth value of an optional string: \<^verbatim>\<open>None\<close> and the empty string are false.\<close>

definition truthy :: "string option \<Rightarrow> bool" where
  "truthy s = (case s of None \<Rightarrow> False | Some x \<Rightarrow> x \<noteq> [])"

text \<open>What an f-string prints for an optional string.\<close>

definition py_str :: "string option \<Rightarrow> string" where
  "py_str s = (case s of None \<Rightarrow> ''None'' | Some x \<Rightarrow> x)"

text \<open>\<^verbatim>\<open>s.endswith(suf)\<close>\<close>

definition endswith :: "string \<Rightarrow> string \<Rightarrow> bool" where
  "endswith s suf = (length suf \<le> length s \<and> drop (length s - length suf) s = suf)"

section \<open>The simple validator (xml\_validator\_simple.py)\<close>

subsection \<open>Messages\<close>

text \<open>
  The messages are Ukrainian string literals; each definition below is the f-string of
  the quoted source line with its Cyrillic letters written as UTF-8 bytes, and the
  comment gives the line and an English gloss.
\<close>

definition msg_syntax_error :: "string \<Rightarrow> string" where
  \<comment> \<open>line 68: Syntax error in XML: {e}\<close>
  "msg_syntax_error e =
     [CHR 0xD0, CHR 0xA1, CHR 0xD0, CHR 0xB8, CHR 0xD0, CHR 0xBD, CHR 0xD1, CHR 0x82, CHR 0xD0,
     CHR 0xB0, CHR 0xD0, CHR 0xBA, CHR 0xD1, CHR 0x81, CHR 0xD0, CHR 0xB8, CHR 0xD1, CHR 0x87,
     CHR 0xD0, CHR 0xBD, CHR 0xD0, CHR 0xB0] @ '' '' @ [CHR 0xD0, CHR 0xBF, CHR 0xD0, CHR 0xBE,
     CHR 0xD0, CHR 0xBC, CHR 0xD0, CHR 0xB8, CHR 0xD0, CHR 0xBB, CHR 0xD0, CHR 0xBA, CHR 0xD0,
     CHR 0xB0] @ '' XML: '' @ e"

definition msg_unusual_root :: "string \<Rightarrow> string" where
  \<comment> \<open>line 82: Unusual root element: {root.tag}\<close>
  "msg_unusual_root t =
     [CHR 0xD0, CHR 0x9D, CHR 0xD0, CHR 0xB5, CHR 0xD0, CHR 0xB7, CHR 0xD0, CHR 0xB2, CHR 0xD0,
     CHR 0xB8, CHR 0xD1, CHR 0x87, CHR 0xD0, CHR 0xBD, CHR 0xD0, CHR 0xB8, CHR 0xD0, CHR 0xB9] @
     '' '' @ [CHR 0xD0, CHR 0xBA, CHR 0xD0, CHR 0xBE, CHR 0xD1, CHR 0x80, CHR 0xD0, CHR 0xB5,
     CHR 0xD0, CHR 0xBD, CHR 0xD0, CHR 0xB5, CHR 0xD0, CHR 0xB2, CHR 0xD0, CHR 0xB8, CHR 0xD0,
     CHR 0xB9] @ '' '' @ [CHR 0xD0, CHR 0xB5, CHR 0xD0, CHR 0xBB, CHR 0xD0, CHR 0xB5, CHR 0xD0,
     CHR 0xBC, CHR 0xD0, CHR 0xB5, CHR 0xD0, CHR 0xBD, CHR 0xD1, CHR 0x82] @ '': '' @ t"

definition msg_missing_tag :: "string \<Rightarrow> string" where
  \<comment> \<open>line 97: Missing required tag: <{tag}>\<close>
  "msg_missing_tag t =
     [CHR 0xD0, CHR 0x92, CHR 0xD1, CHR 0x96, CHR 0xD0, CHR 0xB4, CHR 0xD1, CHR 0x81, CHR 0xD1,
     CHR 0x83, CHR 0xD1, CHR 0x82, CHR 0xD0, CHR 0xBD, CHR 0xD1, CHR 0x96, CHR 0xD0, CHR 0xB9] @
     '' '' @ [CHR 0xD0, CHR 0xBE, CHR 0xD0, CHR 0xB1, CHR 0xD0, CHR 0xBE, CHR 0xD0, CHR 0xB2,
     CHR 0x27, CHR 0xD1, CHR 0x8F, CHR 0xD0, CHR 0xB7, CHR 0xD0, CHR 0xBA, CHR 0xD0, CHR 0xBE,
     CHR 0xD0, CHR 0xB2, CHR 0xD0, CHR 0xB8, CHR 0xD0, CHR 0xB9] @ '' '' @ [CHR 0xD1, CHR 0x82,
     CHR 0xD0, CHR 0xB5, CHR 0xD0, CHR 0xB3] @ '': <'' @ t @ ''>''"

definition msg_package_id :: "string \<Rightarrow> string" where
  \<comment> \<open>line 104: Wrong packageId format: {package_id}\<close>
  "msg_package_id p =
     [CHR 0xD0, CHR 0x9D, CHR 0xD0, CHR 0xB5, CHR 0xD0, CHR 0xBF, CHR 0xD1, CHR 0x80, CHR 0xD0,
     CHR 0xB0, CHR 0xD0, CHR 0xB2, CHR 0xD0, CHR 0xB8, CHR 0xD0, CHR 0xBB, CHR 0xD1, CHR 0x8C,
     CHR 0xD0, CHR 0xBD, CHR 0xD0, CHR 0xB8, CHR 0xD0, CHR 0xB9] @ '' '' @ [CHR 0xD1, CHR 0x84,
     CHR 0xD0, CHR 0xBE, CHR 0xD1, CHR 0x80, CHR 0xD0, CHR 0xBC, CHR 0xD0, CHR 0xB0, CHR 0xD1,
     CHR 0x82] @ '' packageId: '' @ p"

definition msg_no_versions :: "string" where
  \<comment> \<open>line 110: supportedVersions contains no version\<close>
  "msg_no_versions =
     ''supportedVersions '' @ [CHR 0xD0, CHR 0xBD, CHR 0xD0, CHR 0xB5] @ '' '' @ [CHR 0xD0,
     CHR 0xBC, CHR 0xD1, CHR 0x96, CHR 0xD1, CHR 0x81, CHR 0xD1, CHR 0x82, CHR 0xD0, CHR 0xB8,
     CHR 0xD1, CHR 0x82, CHR 0xD1, CHR 0x8C] @ '' '' @ [CHR 0xD0, CHR 0xB6, CHR 0xD0, CHR 0xBE,
     CHR 0xD0, CHR 0xB4, CHR 0xD0, CHR 0xBD, CHR 0xD0, CHR 0xBE, CHR 0xD1, CHR 0x97] @ '' '' @
     [CHR 0xD0, CHR 0xB2, CHR 0xD0, CHR 0xB5, CHR 0xD1, CHR 0x80, CHR 0xD1, CHR 0x81, CHR 0xD1,
     CHR 0x96, CHR 0xD1, CHR 0x97]"

definition msg_no_defName :: "string \<Rightarrow> string" where
  \<comment> \<open>line 131: Definition {child.tag} has no defName\<close>
  "msg_no_defName t =
     [CHR 0xD0, CHR 0x94, CHR 0xD0, CHR 0xB5, CHR 0xD1, CHR 0x84, CHR 0xD1, CHR 0x96, CHR 0xD0,
     CHR 0xBD, CHR 0xD1, CHR 0x96, CHR 0xD1, CHR 0x86, CHR 0xD1, CHR 0x96, CHR 0xD1, CHR 0x8F] @
     '' '' @ t @ '' '' @ [CHR 0xD0, CHR 0xBD, CHR 0xD0, CHR 0xB5] @ '' '' @ [CHR 0xD0, CHR 0xBC,
     CHR 0xD0, CHR 0xB0, CHR 0xD1, CHR 0x94] @ '' defName''"

definition msg_empty_defName :: "string \<Rightarrow> string" where
  \<comment> \<open>line 133: Empty defName in definition {child.tag}\<close>
  "msg_empty_defName t =
     [CHR 0xD0, CHR 0x9F, CHR 0xD0, CHR 0xBE, CHR 0xD1, CHR 0x80, CHR 0xD0, CHR 0xBE, CHR 0xD0,
     CHR 0xB6, CHR 0xD0, CHR 0xBD, CHR 0xD1, CHR 0x96, CHR 0xD0, CHR 0xB9] @ '' defName '' @
     [CHR 0xD1, CHR 0x83] @ '' '' @ [CHR 0xD0, CHR 0xB4, CHR 0xD0, CHR 0xB5, CHR 0xD1, CHR 0x84,
     CHR 0xD1, CHR 0x96, CHR 0xD0, CHR 0xBD, CHR 0xD1, CHR 0x96, CHR 0xD1, CHR 0x86, CHR 0xD1,
     CHR 0x96, CHR 0xD1, CHR 0x97] @ '' '' @ t"

definition msg_no_label :: "string \<Rightarrow> string" where
  \<comment> \<open>line 139: Definition {child.tag} has no label\<close>
  "msg_no_label t =
     [CHR 0xD0, CHR 0x94, CHR 0xD0, CHR 0xB5, CHR 0xD1, CHR 0x84, CHR 0xD1, CHR 0x96, CHR 0xD0,
     CHR 0xBD, CHR 0xD1, CHR 0x96, CHR 0xD1, CHR 0x86, CHR 0xD1, CHR 0x96, CHR 0xD1, CHR 0x8F] @
     '' '' @ t @ '' '' @ [CHR 0xD0, CHR 0xBD, CHR 0xD0, CHR 0xB5] @ '' '' @ [CHR 0xD0, CHR 0xBC,
     CHR 0xD0, CHR 0xB0, CHR 0xD1, CHR 0x94] @ '' label''"

definition msg_no_definitions :: "string" where
  \<comment> \<open>line 142: The Defs file contains no definition\<close>
  "msg_no_definitions =
     [CHR 0xD0, CHR 0xA4, CHR 0xD0, CHR 0xB0, CHR 0xD0, CHR 0xB9, CHR 0xD0, CHR 0xBB] @
     '' Defs '' @ [CHR 0xD0, CHR 0xBD, CHR 0xD0, CHR 0xB5] @ '' '' @ [CHR 0xD0, CHR 0xBC,
     CHR 0xD1, CHR 0x96, CHR 0xD1, CHR 0x81, CHR 0xD1, CHR 0x82, CHR 0xD0, CHR 0xB8, CHR 0xD1,
     CHR 0x82, CHR 0xD1, CHR 0x8C] @ '' '' @ [CHR 0xD0, CHR 0xB6, CHR 0xD0, CHR 0xBE, CHR 0xD0,
     CHR 0xB4, CHR 0xD0, CHR 0xBD, CHR 0xD0, CHR 0xBE, CHR 0xD1, CHR 0x97] @ '' '' @ [CHR 0xD0,
     CHR 0xB4, CHR 0xD0, CHR 0xB5, CHR 0xD1, CHR 0x84, CHR 0xD1, CHR 0x96, CHR 0xD0, CHR 0xBD,
     CHR 0xD1, CHR 0x96, CHR 0xD1, CHR 0x86, CHR 0xD1, CHR 0x96, CHR 0xD1, CHR 0x97]"

definition msg_unknown_tag :: "string \<Rightarrow> string" where
  \<comment> \<open>line 151: Unknown tag: {current_path}\<close>
  "msg_unknown_tag p =
     [CHR 0xD0, CHR 0x9D, CHR 0xD0, CHR 0xB5, CHR 0xD0, CHR 0xB2, CHR 0xD1, CHR 0x96, CHR 0xD0,
     CHR 0xB4, CHR 0xD0, CHR 0xBE, CHR 0xD0, CHR 0xBC, CHR 0xD0, CHR 0xB8, CHR 0xD0, CHR 0xB9] @
     '' '' @ [CHR 0xD1, CHR 0x82, CHR 0xD0, CHR 0xB5, CHR 0xD0, CHR 0xB3] @ '': '' @ p"

subsection \<open>State and tag table\<close>

record validator =
  errors :: "string list"
  warnings :: "string list"

definition rimworld_tags :: "string list" where
  "rimworld_tags =
    [''ModMetaData'', ''Defs'', ''ThingDef'', ''RecipeDef'', ''ResearchProjectDef'',
     ''PawnKindDef'', ''TraitDef'', ''FactionDef'', ''BiomeDef'', ''JobDef'', ''WorkGiverDef'',
     ''name'', ''author'', ''packageId'', ''description'', ''supportedVersions'',
     ''modDependencies'', ''incompatibleWith'', ''loadAfter'', ''loadBefore'', ''defName'',
     ''label'', ''thingClass'', ''category'', ''tickerType'', ''altitudeLayer'',
     ''passability'', ''pathCost'', ''useHitPoints'', ''selectable'', ''drawGUIOverlay'',
     ''rotatable'', ''fillPercent'', ''statBases'', ''costList'', ''graphicData'',
     ''researchPrerequisites'', ''constructionSkillPrerequisite'', ''designationCategory'',
     ''placingDraggableDimensions'', ''terrainAffordanceNeeded'', ''constructEffect'',
     ''repairEffect'', ''filthLeaving'', ''leaveResourcesWhenKilled'',
     ''resourcesFractionWhenDeconstructed'', ''MaxHitPoints'', ''WorkToBuild'',
     ''Flammability'', ''Beauty'', ''Mass'', ''MarketValue'', ''DeteriorationRate'',
     ''SellPriceFactor'', ''Comfort'', ''Nutrition'', ''FoodPoisonChance'', ''texPath'',
     ''graphicClass'', ''drawSize'', ''color'', ''colorTwo'', ''drawRotated'', ''allowFlip'',
     ''flipExtraRotation'', ''shadowData'', ''damageData'', ''jobString'', ''workSpeedStat'',
     ''workSkill'', ''effectWorking'', ''soundWorking'', ''workAmount'', ''unfinishedThingDef'',
     ''ingredients'', ''products'', ''recipeUsers'', ''researchPrerequisite'',
     ''skillRequirements'', ''workSkillLearnFactor'', ''baseCost'', ''techLevel'',
     ''prerequisites'', ''researchViewX'', ''researchViewY'', ''requiredResearchBuilding'',
     ''requiredResearchFacilities'', ''tab'', ''li'', ''count'', ''filter'', ''thingDefs'',
     ''categories'', ''stuffCategories'']"

subsection \<open>validate\_xml\_syntax\<close>

definition validate_xml_syntax :: "xml_parser \<Rightarrow> validator \<Rightarrow> string \<Rightarrow> bool \<times> validator" where
  "validate_xml_syntax fromstring self content =
     (let self1 = self\<lparr>errors := [], warnings := []\<rparr> in
      case fromstring content of
        Parsed root \<Rightarrow> (True, self1)
      | ParseError e \<Rightarrow> (False, self1\<lparr>errors := errors self1 @ [msg_syntax_error e]\<rparr>))"

subsection \<open>validate\_package\_id\<close>

text \<open>
  The pattern is \<^verbatim>\<open>^[a-zA-Z0-9_]+\.[a-zA-Z0-9_]+$\<close>, used with \<^verbatim>\<open>re.match\<close> and no flags.
  Each piece of the pattern is a function from the text still to be read to the list of
  texts that can remain after the piece has matched, longest match first, so the
  composition below tries every way the backtracking matcher can try.
\<close>

definition is_word_char :: "char \<Rightarrow> bool" where
  "is_word_char c =
     (let n = (of_char c :: nat) in
      (97 \<le> n \<and> n \<le> 122) \<or> (65 \<le> n \<and> n \<le> 90) \<or> (48 \<le> n \<and> n \<le> 57) \<or> n = 95)"

fun match_word_plus :: "string \<Rightarrow> string list" where
  "match_word_plus [] = []"
| "match_word_plus (c # cs) = (if is_word_char c then match_word_plus cs @ [cs] else [])"

fun match_dot :: "string \<Rightarrow> string list" where
  "match_dot [] = []"
| "match_dot (c # cs) = (if c = CHR ''.'' then [cs] else [])"

text \<open>
  \<^verbatim>\<open>$\<close> without \<^verbatim>\<open>re.MULTILINE\<close> matches at the end of the string and just before a newline
  that is the last character of the string.
\<close>

definition match_end :: "string \<Rightarrow> bool" where
  "match_end s = (s = [] \<or> s = [CHR 0x0A])"

definition re_match_package_id :: "string \<Rightarrow> bool" where
  "re_match_package_id s =
     list_ex match_end
       (concat (map match_word_plus (concat (map match_dot (match_word_plus s)))))"

definition validate_package_id :: "string option \<Rightarrow> bool" where
  "validate_package_id package_id =
     (if truthy package_id then re_match_package_id (py_str package_id) else False)"

subsection \<open>validate\_mod\_metadata\<close>

definition required_tags :: "string list" where
  "required_tags = [''name'', ''author'', ''packageId'', ''supportedVersions'']"

definition check_required :: "element \<Rightarrow> string \<Rightarrow> validator \<Rightarrow> validator" where
  "check_required root t self =
     (if find_elem root t = None then self\<lparr>errors := errors self @ [msg_missing_tag t]\<rparr>
      else self)"

definition check_package_id :: "element \<Rightarrow> validator \<Rightarrow> validator" where
  "check_package_id root self =
     (case find_elem root ''packageId'' of
        None \<Rightarrow> self
      | Some package_id_elem \<Rightarrow>
          (let package_id = etext package_id_elem in
           if validate_package_id package_id then self
           else self\<lparr>errors := errors self @ [msg_package_id (py_str package_id)]\<rparr>))"

definition check_supported_versions :: "element \<Rightarrow> validator \<Rightarrow> validator" where
  "check_supported_versions root self =
     (case find_elem root ''supportedVersions'' of
        None \<Rightarrow> self
      | Some supported_versions \<Rightarrow>
          if length (findall supported_versions ''li'') = 0
          then self\<lparr>warnings := warnings self @ [msg_no_versions]\<rparr>
          else self)"

definition validate_mod_metadata :: "element \<Rightarrow> validator \<Rightarrow> validator" where
  "validate_mod_metadata root self =
     check_supported_versions root
       (check_package_id root (fold (check_required root) required_tags self))"

subsection \<open>validate\_defs\_structure\<close>

text \<open>The body of the loop over the children of the root (lines 128 to 139).\<close>

definition check_def_name :: "element \<Rightarrow> validator \<Rightarrow> validator" where
  "check_def_name child self =
     (case find_elem child ''defName'' of
        None \<Rightarrow> self\<lparr>errors := errors self @ [msg_no_defName (tag child)]\<rparr>
      | Some def_name_elem \<Rightarrow>
          if truthy (etext def_name_elem) then self
          else self\<lparr>errors := errors self @ [msg_empty_defName (tag child)]\<rparr>)"

definition check_label :: "element \<Rightarrow> validator \<Rightarrow> validator" where
  "check_label child self =
     (if tag child \<in> set [''ThingDef'', ''RecipeDef'', ''ResearchProjectDef'']
      then (case find_elem child ''label'' of
              None \<Rightarrow> self\<lparr>warnings := warnings self @ [msg_no_label (tag child)]\<rparr>
            | Some label_elem \<Rightarrow> self)
      else self)"

definition defs_loop_body :: "element \<Rightarrow> nat \<times> validator \<Rightarrow> nat \<times> validator" where
  "defs_loop_body child st =
     (case st of (def_count, self) \<Rightarrow> (def_count + 1, check_label child (check_def_name child self)))"

definition validate_defs_structure :: "element \<Rightarrow> validator \<Rightarrow> validator" where
  "validate_defs_structure root self =
     (case fold defs_loop_body (children root) (0, self) of
        (def_count, self1) \<Rightarrow>
          if def_count = 0 then self1\<lparr>warnings := warnings self1 @ [msg_no_definitions]\<rparr>
          else self1)"

subsection \<open>check\_unknown\_tags\<close>

definition current_path_of :: "string \<Rightarrow> string \<Rightarrow> string" where
  "current_path_of path t = (if path \<noteq> [] then path @ ''/'' @ t else t)"

definition warn_unknown :: "string \<Rightarrow> string \<Rightarrow> validator \<Rightarrow> validator" where
  "warn_unknown t current_path self =
     (if t \<notin> set rimworld_tags
      then (if t \<notin> set [''li'', ''count''] \<and> \<not> endswith t ''Def''
            then self\<lparr>warnings := warnings self @ [msg_unknown_tag current_path]\<rparr>
            else self)
      else self)"

fun check_unknown_tags :: "element \<Rightarrow> string \<Rightarrow> validator \<Rightarrow> validator" where
  "check_unknown_tags (Element t tx cs) path self =
     fold (\<lambda>child acc. check_unknown_tags child (current_path_of path t) acc) cs
       (warn_unknown t (current_path_of path t) self)"

subsection \<open>validate\_rimworld\_structure and validate\_content\<close>

definition validate_root :: "element \<Rightarrow> validator \<Rightarrow> validator" where
  "validate_root root self =
     (if tag root = ''ModMetaData'' then validate_mod_metadata root self
      else if tag root = ''Defs'' then validate_defs_structure root self
      else self\<lparr>warnings := warnings self @ [msg_unusual_root (tag root)]\<rparr>)"

definition validate_rimworld_structure :: "xml_parser \<Rightarrow> validator \<Rightarrow> string \<Rightarrow> validator" where
  "validate_rimworld_structure fromstring self content =
     (case fromstring content of
        Parsed root \<Rightarrow> check_unknown_tags root [] (validate_root root self)
      | ParseError e \<Rightarrow> self)"

definition validate_content :: "xml_parser \<Rightarrow> validator \<Rightarrow> string \<Rightarrow> bool \<times> validator" where
  "validate_content fromstring self content =
     (case validate_xml_syntax fromstring self content of
        (ok, self1) \<Rightarrow>
          if ok then
            (let self2 = validate_rimworld_structure fromstring self1 content
             in (length (errors self2) = 0, self2))
          else (False, self1))"

subsection \<open>The constructor\<close>

text \<open>\<^verbatim>\<open>__init__\<close>: both lists start empty.\<close>

definition new_validator :: validator where
  "new_validator = \<lparr>errors = [], warnings = []\<rparr>"

section \<open>The enhanced validator (enhanced\_xml\_validator.py)\<close>

subsection \<open>Messages\<close>

definition emsg_unusual_root :: "string \<Rightarrow> string" where
  \<comment> \<open>line 94: Unusual root element: <{root.tag}>. Expected: Defs, GameData, LanguageData or Patch\<close>
  "emsg_unusual_root t =
     [CHR 0xD0, CHR 0x9D, CHR 0xD0, CHR 0xB5, CHR 0xD0, CHR 0xB7, CHR 0xD0, CHR 0xB2, CHR 0xD0,
     CHR 0xB8, CHR 0xD1, CHR 0x87, CHR 0xD0, CHR 0xBD, CHR 0xD0, CHR 0xB8, CHR 0xD0, CHR 0xB9] @
     '' '' @ [CHR 0xD0, CHR 0xBA, CHR 0xD0, CHR 0xBE, CHR 0xD1, CHR 0x80, CHR 0xD0, CHR 0xB5,
     CHR 0xD0, CHR 0xBD, CHR 0xD0, CHR 0xB5, CHR 0xD0, CHR 0xB2, CHR 0xD0, CHR 0xB8, CHR 0xD0,
     CHR 0xB9] @ '' '' @ [CHR 0xD0, CHR 0xB5, CHR 0xD0, CHR 0xBB, CHR 0xD0, CHR 0xB5, CHR 0xD0,
     CHR 0xBC, CHR 0xD0, CHR 0xB5, CHR 0xD0, CHR 0xBD, CHR 0xD1, CHR 0x82] @ '': <'' @ t @
     ''>. '' @ [CHR 0xD0, CHR 0x9E, CHR 0xD1, CHR 0x87, CHR 0xD1, CHR 0x96, CHR 0xD0, CHR 0xBA,
     CHR 0xD1, CHR 0x83, CHR 0xD0, CHR 0xB2, CHR 0xD0, CHR 0xB0, CHR 0xD0, CHR 0xBB, CHR 0xD0,
     CHR 0xBE, CHR 0xD1, CHR 0x81, CHR 0xD1, CHR 0x8F] @ '': Defs, GameData, LanguageData '' @
     [CHR 0xD0, CHR 0xB0, CHR 0xD0, CHR 0xB1, CHR 0xD0, CHR 0xBE] @ '' Patch''"

definition emsg_structure_error :: "string \<Rightarrow> string" where
  \<comment> \<open>line 108: Structure validation error: {e}\<close>
  "emsg_structure_error e =
     [CHR 0xD0, CHR 0x9F, CHR 0xD0, CHR 0xBE, CHR 0xD0, CHR 0xBC, CHR 0xD0, CHR 0xB8, CHR 0xD0,
     CHR 0xBB, CHR 0xD0, CHR 0xBA, CHR 0xD0, CHR 0xB0] @ '' '' @ [CHR 0xD0, CHR 0xB2, CHR 0xD0,
     CHR 0xB0, CHR 0xD0, CHR 0xBB, CHR 0xD1, CHR 0x96, CHR 0xD0, CHR 0xB4, CHR 0xD0, CHR 0xB0,
     CHR 0xD1, CHR 0x86, CHR 0xD1, CHR 0x96, CHR 0xD1, CHR 0x97] @ '' '' @ [CHR 0xD1, CHR 0x81,
     CHR 0xD1, CHR 0x82, CHR 0xD1, CHR 0x80, CHR 0xD1, CHR 0x83, CHR 0xD0, CHR 0xBA, CHR 0xD1,
     CHR 0x82, CHR 0xD1, CHR 0x83, CHR 0xD1, CHR 0x80, CHR 0xD0, CHR 0xB8] @ '': '' @ e"

definition emsg_unusual_in_defs :: "string \<Rightarrow> string" where
  \<comment> \<open>line 222: Unusual element in Defs: <{child.tag}>\<close>
  "emsg_unusual_in_defs t =
     [CHR 0xD0, CHR 0x9D, CHR 0xD0, CHR 0xB5, CHR 0xD0, CHR 0xB7, CHR 0xD0, CHR 0xB2, CHR 0xD0,
     CHR 0xB8, CHR 0xD1, CHR 0x87, CHR 0xD0, CHR 0xBD, CHR 0xD0, CHR 0xB8, CHR 0xD0, CHR 0xB9] @
     '' '' @ [CHR 0xD0, CHR 0xB5, CHR 0xD0, CHR 0xBB, CHR 0xD0, CHR 0xB5, CHR 0xD0, CHR 0xBC,
     CHR 0xD0, CHR 0xB5, CHR 0xD0, CHR 0xBD, CHR 0xD1, CHR 0x82] @ '' '' @ [CHR 0xD0,
     CHR 0xB2] @ '' Defs: <'' @ t @ ''>''"

definition emsg_no_defs :: "string" where
  \<comment> \<open>line 225: Defs contains no Def element\<close>
  "emsg_no_defs =
     ''Defs '' @ [CHR 0xD0, CHR 0xBD, CHR 0xD0, CHR 0xB5] @ '' '' @ [CHR 0xD0, CHR 0xBC,
     CHR 0xD1, CHR 0x96, CHR 0xD1, CHR 0x81, CHR 0xD1, CHR 0x82, CHR 0xD0, CHR 0xB8, CHR 0xD1,
     CHR 0x82, CHR 0xD1, CHR 0x8C] @ '' '' @ [CHR 0xD0, CHR 0xB6, CHR 0xD0, CHR 0xBE, CHR 0xD0,
     CHR 0xB4, CHR 0xD0, CHR 0xBD, CHR 0xD0, CHR 0xBE, CHR 0xD0, CHR 0xB3, CHR 0xD0, CHR 0xBE] @
     '' Def '' @ [CHR 0xD0, CHR 0xB5, CHR 0xD0, CHR 0xBB, CHR 0xD0, CHR 0xB5, CHR 0xD0,
     CHR 0xBC, CHR 0xD0, CHR 0xB5, CHR 0xD0, CHR 0xBD, CHR 0xD1, CHR 0x82, CHR 0xD0, CHR 0xB0]"

definition emsg_found_defs :: "string \<Rightarrow> string" where
  \<comment> \<open>line 227: Found {def_count} Def elements\<close>
  "emsg_found_defs n =
     [CHR 0xD0, CHR 0x97, CHR 0xD0, CHR 0xBD, CHR 0xD0, CHR 0xB0, CHR 0xD0, CHR 0xB9, CHR 0xD0,
     CHR 0xB4, CHR 0xD0, CHR 0xB5, CHR 0xD0, CHR 0xBD, CHR 0xD0, CHR 0xBE] @ '' '' @ n @
     '' Def '' @ [CHR 0xD0, CHR 0xB5, CHR 0xD0, CHR 0xBB, CHR 0xD0, CHR 0xB5, CHR 0xD0,
     CHR 0xBC, CHR 0xD0, CHR 0xB5, CHR 0xD0, CHR 0xBD, CHR 0xD1, CHR 0x82, CHR 0xD1, CHR 0x96,
     CHR 0xD0, CHR 0xB2]"

definition emsg_unusual_in_patch :: "string \<Rightarrow> string" where
  \<comment> \<open>line 238: Unusual element in Patch: <{child.tag}>\<close>
  "emsg_unusual_in_patch t =
     [CHR 0xD0, CHR 0x9D, CHR 0xD0, CHR 0xB5, CHR 0xD0, CHR 0xB7, CHR 0xD0, CHR 0xB2, CHR 0xD0,
     CHR 0xB8, CHR 0xD1, CHR 0x87, CHR 0xD0, CHR 0xBD, CHR 0xD0, CHR 0xB8, CHR 0xD0, CHR 0xB9] @
     '' '' @ [CHR 0xD0, CHR 0xB5, CHR 0xD0, CHR 0xBB, CHR 0xD0, CHR 0xB5, CHR 0xD0, CHR 0xBC,
     CHR 0xD0, CHR 0xB5, CHR 0xD0, CHR 0xBD, CHR 0xD1, CHR 0x82] @ '' '' @ [CHR 0xD0,
     CHR 0xB2] @ '' Patch: <'' @ t @ ''>''"

definition emsg_no_operations :: "string" where
  \<comment> \<open>line 241: Patch contains no operation\<close>
  "emsg_no_operations =
     ''Patch '' @ [CHR 0xD0, CHR 0xBD, CHR 0xD0, CHR 0xB5] @ '' '' @ [CHR 0xD0, CHR 0xBC,
     CHR 0xD1, CHR 0x96, CHR 0xD1, CHR 0x81, CHR 0xD1, CHR 0x82, CHR 0xD0, CHR 0xB8, CHR 0xD1,
     CHR 0x82, CHR 0xD1, CHR 0x8C] @ '' '' @ [CHR 0xD0, CHR 0xB6, CHR 0xD0, CHR 0xBE, CHR 0xD0,
     CHR 0xB4, CHR 0xD0, CHR 0xBD, CHR 0xD0, CHR 0xBE, CHR 0xD1, CHR 0x97] @ '' '' @ [CHR 0xD0,
     CHR 0xBE, CHR 0xD0, CHR 0xBF, CHR 0xD0, CHR 0xB5, CHR 0xD1, CHR 0x80, CHR 0xD0, CHR 0xB0,
     CHR 0xD1, CHR 0x86, CHR 0xD1, CHR 0x96, CHR 0xD1, CHR 0x97]"

definition emsg_found_operations :: "string \<Rightarrow> string" where
  \<comment> \<open>line 243: Found {operation_count} patch operations\<close>
  "emsg_found_operations n =
     [CHR 0xD0, CHR 0x97, CHR 0xD0, CHR 0xBD, CHR 0xD0, CHR 0xB0, CHR 0xD0, CHR 0xB9, CHR 0xD0,
     CHR 0xB4, CHR 0xD0, CHR 0xB5, CHR 0xD0, CHR 0xBD, CHR 0xD0, CHR 0xBE] @ '' '' @ n @
     '' patch '' @ [CHR 0xD0, CHR 0xBE, CHR 0xD0, CHR 0xBF, CHR 0xD0, CHR 0xB5, CHR 0xD1,
     CHR 0x80, CHR 0xD0, CHR 0xB0, CHR 0xD1, CHR 0x86, CHR 0xD1, CHR 0x96, CHR 0xD0, CHR 0xB9]"

definition emsg_expected_type :: "string \<Rightarrow> string \<Rightarrow> string" where
  \<comment> \<open>line 251: Expected {expected_type}, found {def_type}\<close>
  "emsg_expected_type x t =
     [CHR 0xD0, CHR 0x9E, CHR 0xD1, CHR 0x87, CHR 0xD1, CHR 0x96, CHR 0xD0, CHR 0xBA, CHR 0xD1,
     CHR 0x83, CHR 0xD0, CHR 0xB2, CHR 0xD0, CHR 0xB0, CHR 0xD0, CHR 0xB2, CHR 0xD1, CHR 0x81,
     CHR 0xD1, CHR 0x8F] @ '' '' @ x @ '', '' @ [CHR 0xD0, CHR 0xB7, CHR 0xD0, CHR 0xBD,
     CHR 0xD0, CHR 0xB0, CHR 0xD0, CHR 0xB9, CHR 0xD0, CHR 0xB4, CHR 0xD0, CHR 0xB5, CHR 0xD0,
     CHR 0xBD, CHR 0xD0, CHR 0xBE] @ '' '' @ t"

definition emsg_no_defName :: "string \<Rightarrow> string" where
  \<comment> \<open>line 256: {def_type} lacks the mandatory element <defName>\<close>
  "emsg_no_defName t =
     t @ '' '' @ [CHR 0xD0, CHR 0xBD, CHR 0xD0, CHR 0xB5] @ '' '' @ [CHR 0xD0, CHR 0xBC,
     CHR 0xD0, CHR 0xB0, CHR 0xD1, CHR 0x94] @ '' '' @ [CHR 0xD0, CHR 0xBE, CHR 0xD0, CHR 0xB1,
     CHR 0xD0, CHR 0xBE, CHR 0xD0, CHR 0xB2, CHR 0x27, CHR 0xD1, CHR 0x8F, CHR 0xD0, CHR 0xB7,
     CHR 0xD0, CHR 0xBA, CHR 0xD0, CHR 0xBE, CHR 0xD0, CHR 0xB2, CHR 0xD0, CHR 0xBE, CHR 0xD0,
     CHR 0xB3, CHR 0xD0, CHR 0xBE] @ '' '' @ [CHR 0xD0, CHR 0xB5, CHR 0xD0, CHR 0xBB, CHR 0xD0,
     CHR 0xB5, CHR 0xD0, CHR 0xBC, CHR 0xD0, CHR 0xB5, CHR 0xD0, CHR 0xBD, CHR 0xD1, CHR 0x82,
     CHR 0xD0, CHR 0xB0] @ '' <defName>''"

definition emsg_empty_defName :: "string \<Rightarrow> string" where
  \<comment> \<open>line 259: {def_type} has an empty <defName>\<close>
  "emsg_empty_defName t =
     t @ '' '' @ [CHR 0xD0, CHR 0xBC, CHR 0xD0, CHR 0xB0, CHR 0xD1, CHR 0x94] @ '' '' @
     [CHR 0xD0, CHR 0xBF, CHR 0xD0, CHR 0xBE, CHR 0xD1, CHR 0x80, CHR 0xD0, CHR 0xBE, CHR 0xD0,
     CHR 0xB6, CHR 0xD0, CHR 0xBD, CHR 0xD1, CHR 0x96, CHR 0xD0, CHR 0xB9] @ '' <defName>''"

definition emsg_no_label :: "string \<Rightarrow> string" where
  \<comment> \<open>line 264: {def_type} has no <label> (recommended)\<close>
  "emsg_no_label t =
     t @ '' '' @ [CHR 0xD0, CHR 0xBD, CHR 0xD0, CHR 0xB5] @ '' '' @ [CHR 0xD0, CHR 0xBC,
     CHR 0xD0, CHR 0xB0, CHR 0xD1, CHR 0x94] @ '' <label> ('' @ [CHR 0xD1, CHR 0x80, CHR 0xD0,
     CHR 0xB5, CHR 0xD0, CHR 0xBA, CHR 0xD0, CHR 0xBE, CHR 0xD0, CHR 0xBC, CHR 0xD0, CHR 0xB5,
     CHR 0xD0, CHR 0xBD, CHR 0xD0, CHR 0xB4, CHR 0xD1, CHR 0x83, CHR 0xD1, CHR 0x94, CHR 0xD1,
     CHR 0x82, CHR 0xD1, CHR 0x8C, CHR 0xD1, CHR 0x81, CHR 0xD1, CHR 0x8F] @ '')''"

definition emsg_no_description :: "string \<Rightarrow> string" where
  \<comment> \<open>line 267: {def_type} has no <description> (recommended)\<close>
  "emsg_no_description t =
     t @ '' '' @ [CHR 0xD0, CHR 0xBD, CHR 0xD0, CHR 0xB5] @ '' '' @ [CHR 0xD0, CHR 0xBC,
     CHR 0xD0, CHR 0xB0, CHR 0xD1, CHR 0x94] @ '' <description> ('' @ [CHR 0xD1, CHR 0x80,
     CHR 0xD0, CHR 0xB5, CHR 0xD0, CHR 0xBA, CHR 0xD0, CHR 0xBE, CHR 0xD0, CHR 0xBC, CHR 0xD0,
     CHR 0xB5, CHR 0xD0, CHR 0xBD, CHR 0xD0, CHR 0xB4, CHR 0xD1, CHR 0x83, CHR 0xD1, CHR 0x94,
     CHR 0xD1, CHR 0x82, CHR 0xD1, CHR 0x8C, CHR 0xD1, CHR 0x81, CHR 0xD1, CHR 0x8F] @ '')''"

definition emsg_unusual_child :: "string \<Rightarrow> string \<Rightarrow> string" where
  \<comment> \<open>line 274: Unusual element in {def_type}: <{child.tag}>\<close>
  "emsg_unusual_child t c =
     [CHR 0xD0, CHR 0x9D, CHR 0xD0, CHR 0xB5, CHR 0xD0, CHR 0xB7, CHR 0xD0, CHR 0xB2, CHR 0xD0,
     CHR 0xB8, CHR 0xD1, CHR 0x87, CHR 0xD0, CHR 0xBD, CHR 0xD0, CHR 0xB8, CHR 0xD0, CHR 0xB9] @
     '' '' @ [CHR 0xD0, CHR 0xB5, CHR 0xD0, CHR 0xBB, CHR 0xD0, CHR 0xB5, CHR 0xD0, CHR 0xBC,
     CHR 0xD0, CHR 0xB5, CHR 0xD0, CHR 0xBD, CHR 0xD1, CHR 0x82] @ '' '' @ [CHR 0xD0,
     CHR 0xB2] @ '' '' @ t @ '': <'' @ c @ ''>''"

definition emsg_empty_element :: "string \<Rightarrow> string" where
  \<comment> \<open>line 281: Empty element: <{elem.tag}>\<close>
  "emsg_empty_element t =
     [CHR 0xD0, CHR 0x9F, CHR 0xD0, CHR 0xBE, CHR 0xD1, CHR 0x80, CHR 0xD0, CHR 0xBE, CHR 0xD0,
     CHR 0xB6, CHR 0xD0, CHR 0xBD, CHR 0xD1, CHR 0x96, CHR 0xD0, CHR 0xB9] @ '' '' @ [CHR 0xD0,
     CHR 0xB5, CHR 0xD0, CHR 0xBB, CHR 0xD0, CHR 0xB5, CHR 0xD0, CHR 0xBC, CHR 0xD0, CHR 0xB5,
     CHR 0xD0, CHR 0xBD, CHR 0xD1, CHR 0x82] @ '': <'' @ t @ ''>''"

definition emsg_duplicate :: "string \<Rightarrow> string" where
  \<comment> \<open>line 290: Duplicate defName: {def_name_elem.text}\<close>
  "emsg_duplicate n =
     [CHR 0xD0, CHR 0x94, CHR 0xD1, CHR 0x83, CHR 0xD0, CHR 0xB1, CHR 0xD0, CHR 0xBB, CHR 0xD1,
     CHR 0x96, CHR 0xD0, CHR 0xBA, CHR 0xD0, CHR 0xB0, CHR 0xD1, CHR 0x82] @ '' defName: '' @ n"

subsection \<open>Python helpers\<close>

text \<open>\<^verbatim>\<open>str(n)\<close> for a count.\<close>

definition digit_char :: "nat \<Rightarrow> char" where
  "digit_char n = char_of (48 + n)"

function str_nat :: "nat \<Rightarrow> string" where
  "str_nat n = (if n < 10 then [digit_char n] else str_nat (n div 10) @ [digit_char (n mod 10)])"
  by pat_completeness auto
termination
  by (relation "measure id") auto

text \<open>
  \<^verbatim>\<open>s.strip()\<close> removes the white space of Python's \<^verbatim>\<open>str.isspace\<close> from both ends: the
  code points 9 to 13, 28 to 32, U+0085, U+00A0, U+1680, U+2000 to U+200A, U+2028, U+2029,
  U+202F, U+205F and U+3000. \<open>ws_len s\<close> is the number of bytes of the white-space code
  point that starts the UTF-8 text \<open>s\<close>, and 0 when none does.
\<close>

definition ascii_space :: "char \<Rightarrow> bool" where
  "ascii_space c = (let n = (of_char c :: nat) in (9 \<le> n \<and> n \<le> 13) \<or> (28 \<le> n \<and> n \<le> 32))"

fun ws_len :: "string \<Rightarrow> nat" where
  "ws_len [] = 0"
| "ws_len (a # r) =
     (if ascii_space a then 1
      else if a = CHR 0xC2 then
        (case r of b # r' \<Rightarrow> if b = CHR 0x85 \<or> b = CHR 0xA0 then 2 else 0 | [] \<Rightarrow> 0)
      else if a = CHR 0xE1 then
        (case r of b # c # r' \<Rightarrow> if b = CHR 0x9A \<and> c = CHR 0x80 then 3 else 0 | _ \<Rightarrow> 0)
      else if a = CHR 0xE2 then
        (case r of
           b # c # r' \<Rightarrow>
             if b = CHR 0x80 \<and>
                ((0x80 \<le> (of_char c :: nat) \<and> (of_char c :: nat) \<le> 0x8A) \<or>
                 c = CHR 0xA8 \<or> c = CHR 0xA9 \<or> c = CHR 0xAF)
             then 3
             else if b = CHR 0x81 \<and> c = CHR 0x9F then 3 else 0
         | _ \<Rightarrow> 0)
      else if a = CHR 0xE3 then
        (case r of b # c # r' \<Rightarrow> if b = CHR 0x80 \<and> c = CHR 0x80 then 3 else 0 | _ \<Rightarrow> 0)
      else 0)"

function lstrip :: "string \<Rightarrow> string" where
  "lstrip s = (if ws_len s = 0 then s else lstrip (drop (ws_len s) s))"
  by pat_completeness auto
termination
proof (relation "measure length")
  show "wf (measure length)" by simp
next
  fix s :: string
  assume "ws_len s \<noteq> 0"
  moreover have "ws_len s \<le> length s"
    by (cases s) (auto split: list.splits)
  ultimately have "length s - ws_len s < length s" by arith
  then show "(drop (ws_len s) s, s) \<in> measure length" by simp
qed

text \<open>
  The white-space code point that ends \<open>s\<close>, if any: a suffix of one, two or three bytes
  that is one white-space code point (UTF-8 is self-synchronising, so at most one of
  the three lengths fits).
\<close>

definition ws_suffix_len :: "string \<Rightarrow> nat" where
  "ws_suffix_len s =
     (if 1 \<le> length s \<and> ws_len (drop (length s - 1) s) = 1 then 1
      else if 2 \<le> length s \<and> ws_len (drop (length s - 2) s) = 2 then 2
      else if 3 \<le> length s \<and> ws_len (drop (length s - 3) s) = 3 then 3
      else 0)"

function rstrip :: "string \<Rightarrow> string" where
  "rstrip s =
     (if ws_suffix_len s = 0 then s else rstrip (take (length s - ws_suffix_len s) s))"
  by pat_completeness auto
termination
proof (relation "measure length")
  show "wf (measure length)" by simp
next
  fix s :: string
  assume "ws_suffix_len s \<noteq> 0"
  then have "0 < ws_suffix_len s \<and> ws_suffix_len s \<le> length s"
    by (auto simp: ws_suffix_len_def split: if_splits)
  then have "length s - ws_suffix_len s < length s" by arith
  then show "(take (length s - ws_suffix_len s) s, s) \<in> measure length" by simp
qed

definition strip :: "string \<Rightarrow> string" where
  "strip s = rstrip (lstrip s)"

text \<open>\<^verbatim>\<open>s.lower()\<close> on the ASCII letters.\<close>

definition lower_char :: "char \<Rightarrow> char" where
  "lower_char c =
     (let n = (of_char c :: nat) in if 65 \<le> n \<and> n \<le> 90 then char_of (n + 32) else c)"

definition lower :: "string \<Rightarrow> string" where
  "lower s = map lower_char s"

text \<open>\<^verbatim>\<open>root.iter()\<close>: the element and all its descendants, in document order.\<close>

fun iter :: "element \<Rightarrow> element list" where
  "iter (Element t tx cs) = Element t tx cs # concat (map iter cs)"

subsection \<open>Result and tag table\<close>

text \<open>
  The result dictionary has the keys \<^verbatim>\<open>valid\<close>, \<^verbatim>\<open>errors\<close>, \<^verbatim>\<open>warnings\<close> and \<^verbatim>\<open>info\<close>; it
  extends the record of the two lists.
\<close>

record result = validator +
  valid :: bool
  info :: "string list"

definition enhanced_rimworld_tags :: "(string \<times> string list) list" where
  "enhanced_rimworld_tags =
     [(''Defs'', [''ThingDef'', ''RecipeDef'', ''ResearchProjectDef'', ''JobDef'', ''WorkGiverDef'']),
      (''ThingDef'', [''defName'', ''label'', ''description'', ''thingClass'', ''category'',
         ''statBases'', ''comps'']),
      (''RecipeDef'', [''defName'', ''label'', ''description'', ''jobString'', ''workAmount'',
         ''ingredients'', ''products'']),
      (''ResearchProjectDef'', [''defName'', ''label'', ''description'', ''baseCost'',
         ''techLevel'', ''prerequisites'']),
      (''statBases'', [''MaxHitPoints'', ''Mass'', ''Beauty'', ''WorkToMake'', ''MarketValue'']),
      (''comps'', [''CompProperties_Forbiddable'', ''CompProperties_Rottable'',
         ''CompProperties_Usable'']),
      (''ingredients'', [''li'']),
      (''products'', [''li'']),
      (''prerequisites'', [''li''])]"

subsection \<open>\_validate\_single\_def\<close>

definition check_expected_type :: "string \<Rightarrow> string option \<Rightarrow> result \<Rightarrow> result" where
  "check_expected_type def_type expected_type res =
     (if truthy expected_type \<and> def_type \<noteq> py_str expected_type
      then res\<lparr>warnings := warnings res @ [emsg_expected_type (py_str expected_type) def_type]\<rparr>
      else res)"

definition check_mandatory :: "element \<Rightarrow> result \<Rightarrow> result" where
  "check_mandatory def_elem res =
     (case find_elem def_elem ''defName'' of
        None \<Rightarrow> res\<lparr>errors := errors res @ [emsg_no_defName (tag def_elem)], valid := False\<rparr>
      | Some def_name \<Rightarrow>
          if \<not> truthy (etext def_name) \<or> \<not> truthy (map_option strip (etext def_name))
          then res\<lparr>errors := errors res @ [emsg_empty_defName (tag def_elem)], valid := False\<rparr>
          else res)"

definition check_recommended :: "element \<Rightarrow> result \<Rightarrow> result" where
  "check_recommended def_elem res =
     (let res1 = (if find_elem def_elem ''label'' = None
                  then res\<lparr>warnings := warnings res @ [emsg_no_label (tag def_elem)]\<rparr>
                  else res)
      in if find_elem def_elem ''description'' = None
         then res1\<lparr>warnings := warnings res1 @ [emsg_no_description (tag def_elem)]\<rparr>
         else res1)"

definition check_type_children :: "element \<Rightarrow> result \<Rightarrow> result" where
  "check_type_children def_elem res =
     (case map_of enhanced_rimworld_tags (tag def_elem) of
        None \<Rightarrow> res
      | Some expected_children \<Rightarrow>
          fold (\<lambda>child acc.
                  if tag child \<notin> set expected_children \<and>
                     tag child \<notin> set [''defName'', ''label'', ''description'']
                  then acc\<lparr>info := info acc @ [emsg_unusual_child (tag def_elem) (tag child)]\<rparr>
                  else acc)
            (children def_elem) res)"

definition validate_single_def :: "element \<Rightarrow> result \<Rightarrow> string option \<Rightarrow> result" where
  "validate_single_def def_elem res expected_type =
     check_type_children def_elem
       (check_recommended def_elem
          (check_mandatory def_elem
             (check_expected_type (tag def_elem) expected_type res)))"

subsection \<open>\_validate\_defs\_structure and \_validate\_patch\_structure\<close>

definition enhanced_defs_loop_body :: "element \<Rightarrow> nat \<times> result \<Rightarrow> nat \<times> result" where
  "enhanced_defs_loop_body child st =
     (case st of (def_count, res) \<Rightarrow>
        if endswith (tag child) ''Def''
        then (def_count + 1, validate_single_def child res None)
        else (def_count, res\<lparr>warnings := warnings res @ [emsg_unusual_in_defs (tag child)]\<rparr>))"

definition enhanced_validate_defs_structure :: "element \<Rightarrow> result \<Rightarrow> result" where
  "enhanced_validate_defs_structure root res =
     (case fold enhanced_defs_loop_body (children root) (0, res) of
        (def_count, res1) \<Rightarrow>
          if def_count = 0 then res1\<lparr>warnings := warnings res1 @ [emsg_no_defs]\<rparr>
          else res1\<lparr>info := info res1 @ [emsg_found_defs (str_nat def_count)]\<rparr>)"

definition operations :: "string list" where
  "operations = [''add'', ''replace'', ''remove'', ''insert'', ''move'', ''copy'', ''test'']"

definition patch_loop_body :: "element \<Rightarrow> nat \<times> result \<Rightarrow> nat \<times> result" where
  "patch_loop_body child st =
     (case st of (operation_count, res) \<Rightarrow>
        if lower (tag child) \<in> set operations then (operation_count + 1, res)
        else (operation_count,
              res\<lparr>warnings := warnings res @ [emsg_unusual_in_patch (tag child)]\<rparr>))"

definition validate_patch_structure :: "element \<Rightarrow> result \<Rightarrow> result" where
  "validate_patch_structure root res =
     (case fold patch_loop_body (children root) (0, res) of
        (operation_count, res1) \<Rightarrow>
          if operation_count = 0 then res1\<lparr>warnings := warnings res1 @ [emsg_no_operations]\<rparr>
          else res1\<lparr>info := info res1 @ [emsg_found_operations (str_nat operation_count)]\<rparr>)"

subsection \<open>\_check\_common\_issues\<close>

definition empty_element_step :: "element \<Rightarrow> result \<Rightarrow> result" where
  "empty_element_step elem res =
     (if etext elem = None \<and> length (children elem) = 0 \<and> tag elem \<notin> set [''li'']
      then res\<lparr>warnings := warnings res @ [emsg_empty_element (tag elem)]\<rparr>
      else res)"

text \<open>The body of the second loop (lines 286 to 293); the state is \<^verbatim>\<open>def_names\<close> and the result.\<close>

definition duplicate_step :: "element \<Rightarrow> string list \<times> result \<Rightarrow> string list \<times> result" where
  "duplicate_step def_elem st =
     (case st of (def_names, res) \<Rightarrow>
        if endswith (tag def_elem) ''Def'' then
          (case find_elem def_elem ''defName'' of
             None \<Rightarrow> (def_names, res)
           | Some def_name_elem \<Rightarrow>
               if truthy (etext def_name_elem) then
                 (if py_str (etext def_name_elem) \<in> set def_names
                  then (def_names,
                        res\<lparr>errors := errors res @ [emsg_duplicate (py_str (etext def_name_elem))],
                            valid := False\<rparr>)
                  else (def_names @ [py_str (etext def_name_elem)], res))
               else (def_names, res))
        else (def_names, res))"

definition check_common_issues :: "element \<Rightarrow> result \<Rightarrow> result" where
  "check_common_issues root res =
     snd (fold duplicate_step (iter root) ([], fold empty_element_step (iter root) res))"

subsection \<open>validate\_rimworld\_structure\<close>

text \<open>
  \<^verbatim>\<open>validate_rimworld_structure\<close> starts from the result of \<^verbatim>\<open>validate_xml_syntax\<close> on the
  same text. That method parses the text and runs regular-expression checks on the raw
  characters, which only add warnings and information; its result is the parameter
  \<open>syntax_result\<close> here. When it is not valid the method returns it as it is. The
  parse error in the second parse is caught by the \<^verbatim>\<open>except Exception\<close> clause.
\<close>

definition check_root_tag :: "element \<Rightarrow> result \<Rightarrow> result" where
  "check_root_tag root res =
     (if tag root \<notin> set [''Defs'', ''GameData'', ''LanguageData'', ''Patch'']
      then res\<lparr>warnings := warnings res @ [emsg_unusual_root (tag root)]\<rparr>
      else res)"

definition structure_dispatch :: "element \<Rightarrow> result \<Rightarrow> result" where
  "structure_dispatch root res =
     (if tag root = ''Defs'' then enhanced_validate_defs_structure root res
      else if tag root = ''Patch'' then validate_patch_structure root res
      else res)"

definition enhanced_validate_rimworld_structure ::
    "xml_parser \<Rightarrow> result \<Rightarrow> string \<Rightarrow> result" where
  "enhanced_validate_rimworld_structure fromstring syntax_result content =
     (if \<not> valid syntax_result then syntax_result
      else
        (case fromstring content of
           Parsed root \<Rightarrow>
             check_common_issues root (structure_dispatch root (check_root_tag root syntax_result))
         | ParseError e \<Rightarrow>
             syntax_result\<lparr>errors := errors syntax_result @ [emsg_structure_error e],
                           valid := False\<rparr>))"

section \<open>Specification-level descriptions\<close>

text \<open>
  The specification describes the unknown-tag walk by its output: every element of the
  tree whose tag is not in the table, is not a list item or a count marker and does not
  end in \<^verbatim>\<open>Def\<close> gives one warning with its slash-joined path from the root, in document
  order. \<open>unknown_paths\<close> lists those paths; it is compared with the code below.
\<close>

definition is_unknown_tag :: "string \<Rightarrow> bool" where
  "is_unknown_tag t =
     (t \<notin> set rimworld_tags \<and> t \<noteq> ''li'' \<and> t \<noteq> ''count'' \<and> \<not> endswith t ''Def'')"

fun unknown_paths :: "element \<Rightarrow> string \<Rightarrow> string list" where
  "unknown_paths (Element t tx cs) path =
     (if is_unknown_tag t then [current_path_of path t] else []) @
     concat (map (\<lambda>c. unknown_paths c (current_path_of path t)) cs)"

text \<open>
  The errors one child of a \<^verbatim>\<open>Defs\<close> root gives in the simple validator: one for a missing
  \<^verbatim>\<open>defName\<close> child, another for a \<^verbatim>\<open>defName\<close> child whose text is \<^verbatim>\<open>None\<close> or empty.
\<close>

definition def_name_errors :: "element \<Rightarrow> string list" where
  "def_name_errors child =
     (case find_elem child ''defName'' of
        None \<Rightarrow> [msg_no_defName (tag child)]
      | Some d \<Rightarrow> if truthy (etext d) then [] else [msg_empty_defName (tag child)])"

text \<open>
  The specification has the validator track every \<^verbatim>\<open>defName\<close> value seen in the document
  and report a value that repeats. In the enhanced validator the values tracked are the
  non-empty \<^verbatim>\<open>defName\<close> texts of the elements whose tag ends in \<^verbatim>\<open>Def\<close>, anywhere in the
  tree, in document order; \<open>repeats seen ns\<close> lists the values of \<open>ns\<close> that were met
  before, one entry for each further occurrence.
\<close>

definition def_name_of :: "element \<Rightarrow> string option" where
  "def_name_of e =
     (if endswith (tag e) ''Def'' then
        (case find_elem e ''defName'' of
           None \<Rightarrow> None
         | Some d \<Rightarrow> if truthy (etext d) then etext d else None)
      else None)"

definition def_names :: "element \<Rightarrow> string list" where
  "def_names root = List.map_filter def_name_of (iter root)"

fun repeats :: "string list \<Rightarrow> string list \<Rightarrow> string list" where
  "repeats seen [] = []"
| "repeats seen (n # ns) =
     (if n \<in> set seen then n # repeats seen ns else repeats (seen @ [n]) ns)"

text \<open>
  The errors of \<^verbatim>\<open>_validate_single_def\<close> start with the tag of the definition and a space,
  the duplicate error starts with the word \<^verbatim>\<open>Duplicate\<close> (in Ukrainian, 16 bytes) and a
  space. The two can only be the same text for a tag that itself begins with that word
  and a space. No tag of a parsed document does: ElementTree gives a tag as an XML name,
  which holds no space, preceded by the namespace URI in braces when the element has a
  namespace.
\<close>

definition duplicate_word :: string where
  "duplicate_word =
     [CHR 0xD0, CHR 0x94, CHR 0xD1, CHR 0x83, CHR 0xD0, CHR 0xB1, CHR 0xD0, CHR 0xBB, CHR 0xD1,
      CHR 0x96, CHR 0xD0, CHR 0xBA, CHR 0xD0, CHR 0xB0, CHR 0xD1, CHR 0x82] @ '' ''"

definition tag_apart :: "string \<Rightarrow> bool" where
  "tag_apart t = (take 17 t \<noteq> duplicate_word)"

definition tags_apart :: "element \<Rightarrow> bool" where
  "tags_apart root = list_all (\<lambda>e. tag_apart (tag e)) (iter root)"

section \<open>Example documents\<close>

text \<open>
  The parsed form of
  \<^verbatim>\<open><ModMetaData><name>X</name><author>Y</author><packageId>P</packageId>\<close>
  \<^verbatim>\<open><supportedVersions><li>1.4</li></supportedVersions></ModMetaData>\<close>
  for a packageId text \<open>P\<close>, the same document without its author, and
  \<^verbatim>\<open><Patch><Operation/></Patch>\<close>.
\<close>

definition about_doc :: "string \<Rightarrow> element" where
  "about_doc package_id =
     Element ''ModMetaData'' None
       [Element ''name'' (Some ''X'') [],
        Element ''author'' (Some ''Y'') [],
        Element ''packageId'' (Some package_id) [],
        Element ''supportedVersions'' None [Element ''li'' (Some ''1.4'') []]]"

definition about_doc_no_author :: element where
  "about_doc_no_author =
     Element ''ModMetaData'' None
       [Element ''name'' (Some ''X'') [],
        Element ''packageId'' (Some ''author.mod'') [],
        Element ''supportedVersions'' None [Element ''li'' (Some ''1.4'') []]]"

definition patch_doc :: element where
  "patch_doc = Element ''Patch'' None [Element ''Operation'' None []]"

text \<open>
  A \<^verbatim>\<open>ThingDef\<close> with the given \<^verbatim>\<open>defName\<close> text, a label and a description; a \<^verbatim>\<open>Defs\<close>
  document of such definitions; the same with the definitions in the namespace
  \<^verbatim>\<open>u v\<close>, whose tag ElementTree gives as \<^verbatim>\<open>{u v}ThingDef\<close>; and a result of
  \<^verbatim>\<open>validate_xml_syntax\<close> for a text that parsed.
\<close>

definition thing_def :: "string \<Rightarrow> element" where
  "thing_def n =
     Element ''ThingDef'' None
       [Element ''defName'' (Some n) [],
        Element ''label'' (Some ''l'') [],
        Element ''description'' (Some ''d'') []]"

definition defs_doc :: "string list \<Rightarrow> element" where
  "defs_doc ns = Element ''Defs'' None (map thing_def ns)"

definition qualified_thing_def :: "string \<Rightarrow> element" where
  "qualified_thing_def n =
     Element ''{u v}ThingDef'' None
       [Element ''defName'' (Some n) [],
        Element ''label'' (Some ''l'') [],
        Element ''description'' (Some ''d'') []]"

definition qualified_defs_doc :: "string list \<Rightarrow> element" where
  "qualified_defs_doc ns = Element ''Defs'' None (map qualified_thing_def ns)"

definition syntax_ok :: result where
  "syntax_ok = \<lparr>errors = [], warnings = [], valid = True, info = []\<rparr>"

section \<open>Properties of the simple validator\<close>

subsection \<open>Auxiliary facts\<close>

lemma fold_keeps:
  assumes "\<And>x s. x \<in> set xs \<Longrightarrow> g (f x s) = g s"
  shows "g (fold f xs s) = g s"
  using assms by (induction xs arbitrary: s) simp_all

lemma validate_xml_syntax_Parsed:
  "fromstring content = Parsed root \<Longrightarrow>
   validate_xml_syntax fromstring self content = (True, \<lparr>errors = [], warnings = []\<rparr>)"
  by (simp add: validate_xml_syntax_def)

lemma validate_xml_syntax_ParseError:
  "fromstring content = ParseError e \<Longrightarrow>
   validate_xml_syntax fromstring self content =
     (False, \<lparr>errors = [msg_syntax_error e], warnings = []\<rparr>)"
  by (simp add: validate_xml_syntax_def)

lemma errors_warn_unknown: "errors (warn_unknown t p self) = errors self"
  by (simp add: warn_unknown_def)

lemma errors_check_unknown_tags: "errors (check_unknown_tags e path self) = errors self"
proof (induction e arbitrary: path self)
  case (Element t tx cs)
  show ?case
    by (simp add: errors_warn_unknown Element.IH
        fold_keeps [where g = errors and xs = cs])
qed

lemma validate_content_Parsed:
  "fromstring content = Parsed root \<Longrightarrow>
   validate_content fromstring self content =
     (errors (validate_root root \<lparr>errors = [], warnings = []\<rparr>) = [],
      check_unknown_tags root [] (validate_root root \<lparr>errors = [], warnings = []\<rparr>))"
  by (simp add: validate_content_def validate_xml_syntax_Parsed validate_rimworld_structure_def
      errors_check_unknown_tags)

lemma fold_appends:
  assumes "\<And>x s. x \<in> set xs \<Longrightarrow> g (f x s) = g s @ h x"
  shows "g (fold f xs s) = g s @ concat (map h xs)"
  using assms by (induction xs arbitrary: s) simp_all

lemma warnings_warn_unknown:
  "warnings (warn_unknown t p self) =
   warnings self @ (if is_unknown_tag t then [msg_unknown_tag p] else [])"
  by (simp add: warn_unknown_def is_unknown_tag_def)

lemma warnings_check_unknown_tags:
  "warnings (check_unknown_tags e path self) =
   warnings self @ map msg_unknown_tag (unknown_paths e path)"
proof (induction e arbitrary: path self)
  case (Element t tx cs)
  have "warnings (fold (\<lambda>child acc. check_unknown_tags child (current_path_of path t) acc) cs s) =
        warnings s @ concat (map (\<lambda>c. map msg_unknown_tag (unknown_paths c (current_path_of path t))) cs)"
    for s
    by (rule fold_appends) (simp add: Element.IH)
  then show ?case
    by (simp add: warnings_warn_unknown map_concat comp_def)
qed

lemma validate_root_other:
  "tag root \<noteq> ''ModMetaData'' \<Longrightarrow> tag root \<noteq> ''Defs'' \<Longrightarrow>
   validate_root root self = self\<lparr>warnings := warnings self @ [msg_unusual_root (tag root)]\<rparr>"
  by (simp add: validate_root_def)

lemma fst_validate_content:
  assumes "fromstring content = Parsed root"
  shows "fst (validate_content fromstring self content) =
         (errors (snd (validate_content fromstring self content)) = [])"
  using assms by (simp add: validate_content_Parsed errors_check_unknown_tags)

text \<open>The errors of the metadata branch, listed.\<close>

lemma errors_fold_check_required:
  "errors (fold (check_required root) ts self) =
   errors self @ map msg_missing_tag (filter (\<lambda>t. find_elem root t = None) ts)"
  by (induction ts arbitrary: self) (simp_all add: check_required_def)

lemma errors_check_package_id:
  "errors (check_package_id root self) =
   errors self @
     (case find_elem root ''packageId'' of
        None \<Rightarrow> []
      | Some e \<Rightarrow> if validate_package_id (etext e) then [] else [msg_package_id (py_str (etext e))])"
  by (simp add: check_package_id_def split: option.splits)

lemma errors_check_supported_versions:
  "errors (check_supported_versions root self) = errors self"
  by (simp add: check_supported_versions_def split: option.splits)

lemma errors_validate_mod_metadata:
  "errors (validate_mod_metadata root self) =
   errors self @ map msg_missing_tag (filter (\<lambda>t. find_elem root t = None) required_tags) @
     (case find_elem root ''packageId'' of
        None \<Rightarrow> []
      | Some e \<Rightarrow> if validate_package_id (etext e) then [] else [msg_package_id (py_str (etext e))])"
  by (simp add: validate_mod_metadata_def errors_check_supported_versions
      errors_check_package_id errors_fold_check_required)

lemma errors_validate_content_metadata:
  assumes "fromstring content = Parsed root" and "tag root = ''ModMetaData''"
  shows "errors (snd (validate_content fromstring self content)) =
     map msg_missing_tag (filter (\<lambda>t. find_elem root t = None) required_tags) @
     (case find_elem root ''packageId'' of
        None \<Rightarrow> []
      | Some e \<Rightarrow> if validate_package_id (etext e) then [] else [msg_package_id (py_str (etext e))])"
  using assms
  by (simp add: validate_content_Parsed errors_check_unknown_tags validate_root_def
      errors_validate_mod_metadata)

lemma msg_missing_tag_neq_msg_package_id: "msg_missing_tag t \<noteq> msg_package_id p"
  by (simp add: msg_missing_tag_def msg_package_id_def)

text \<open>What the pattern accepts.\<close>

lemma match_word_plus_iff:
  "r \<in> set (match_word_plus s) \<longleftrightarrow> (\<exists>a. a \<noteq> [] \<and> list_all is_word_char a \<and> s = a @ r)"
proof (induction s)
  case Nil
  then show ?case by simp
next
  case (Cons c cs)
  show ?case
  proof (cases "is_word_char c")
    case False
    then show ?thesis
      by (auto simp: Cons_eq_append_conv)
  next
    case True
    show ?thesis
    proof
      assume "r \<in> set (match_word_plus (c # cs))"
      with True have "r \<in> set (match_word_plus cs) \<or> r = cs" by auto
      then show "\<exists>a. a \<noteq> [] \<and> list_all is_word_char a \<and> c # cs = a @ r"
      proof
        assume "r \<in> set (match_word_plus cs)"
        then obtain a where "a \<noteq> []" "list_all is_word_char a" "cs = a @ r"
          using Cons.IH by blast
        with True have "c # a \<noteq> [] \<and> list_all is_word_char (c # a) \<and> c # cs = (c # a) @ r"
          by simp
        then show ?thesis by blast
      next
        assume "r = cs"
        with True have "[c] \<noteq> [] \<and> list_all is_word_char [c] \<and> c # cs = [c] @ r" by simp
        then show ?thesis by blast
      qed
    next
      assume "\<exists>a. a \<noteq> [] \<and> list_all is_word_char a \<and> c # cs = a @ r"
      then obtain a where a: "a \<noteq> []" "list_all is_word_char a" "c # cs = a @ r" by blast
      then obtain a' where a': "a = c # a'" "cs = a' @ r"
        by (cases a) auto
      show "r \<in> set (match_word_plus (c # cs))"
      proof (cases "a' = []")
        case True
        with a' \<open>is_word_char c\<close> show ?thesis by simp
      next
        case False
        with a a' have "r \<in> set (match_word_plus cs)"
          using Cons.IH by auto
        with \<open>is_word_char c\<close> show ?thesis by simp
      qed
    qed
  qed
qed

lemma match_dot_iff: "r \<in> set (match_dot s) \<longleftrightarrow> s = CHR ''.'' # r"
  by (cases s) auto

lemma re_match_package_id_iff:
  "re_match_package_id s \<longleftrightarrow>
   (\<exists>a b. a \<noteq> [] \<and> b \<noteq> [] \<and> list_all is_word_char a \<and> list_all is_word_char b \<and>
          (s = a @ ''.'' @ b \<or> s = a @ ''.'' @ b @ [CHR 0x0A]))"
proof -
  have "re_match_package_id s \<longleftrightarrow>
        (\<exists>r1 r2 r3. r1 \<in> set (match_word_plus s) \<and> r2 \<in> set (match_dot r1) \<and>
           r3 \<in> set (match_word_plus r2) \<and> match_end r3)"
    by (auto simp: re_match_package_id_def list_ex_iff)
  also have "\<dots> \<longleftrightarrow>
        (\<exists>a b r3. a \<noteq> [] \<and> list_all is_word_char a \<and> b \<noteq> [] \<and> list_all is_word_char b \<and>
           s = a @ CHR ''.'' # b @ r3 \<and> match_end r3)"
    unfolding match_word_plus_iff match_dot_iff by blast
  also have "\<dots> \<longleftrightarrow>
        (\<exists>a b. a \<noteq> [] \<and> b \<noteq> [] \<and> list_all is_word_char a \<and> list_all is_word_char b \<and>
          (s = a @ ''.'' @ b \<or> s = a @ ''.'' @ b @ [CHR 0x0A]))"
  proof
    assume "\<exists>a b r3. a \<noteq> [] \<and> list_all is_word_char a \<and> b \<noteq> [] \<and> list_all is_word_char b \<and>
           s = a @ CHR ''.'' # b @ r3 \<and> match_end r3"
    then obtain a b r3 where "a \<noteq> []" "list_all is_word_char a" "b \<noteq> []"
      "list_all is_word_char b" "s = a @ CHR ''.'' # b @ r3" "r3 = [] \<or> r3 = [CHR 0x0A]"
      unfolding match_end_def by blast
    then have "a \<noteq> [] \<and> b \<noteq> [] \<and> list_all is_word_char a \<and> list_all is_word_char b \<and>
          (s = a @ ''.'' @ b \<or> s = a @ ''.'' @ b @ [CHR 0x0A])"
      by auto
    then show "\<exists>a b. a \<noteq> [] \<and> b \<noteq> [] \<and> list_all is_word_char a \<and> list_all is_word_char b \<and>
          (s = a @ ''.'' @ b \<or> s = a @ ''.'' @ b @ [CHR 0x0A])"
      by blast
  next
    assume "\<exists>a b. a \<noteq> [] \<and> b \<noteq> [] \<and> list_all is_word_char a \<and> list_all is_word_char b \<and>
          (s = a @ ''.'' @ b \<or> s = a @ ''.'' @ b @ [CHR 0x0A])"
    then obtain a b where ab: "a \<noteq> []" "b \<noteq> []" "list_all is_word_char a"
      "list_all is_word_char b" "s = a @ ''.'' @ b \<or> s = a @ ''.'' @ b @ [CHR 0x0A]"
      by blast
    from ab(5) obtain r3 where "s = a @ CHR ''.'' # b @ r3" "match_end r3"
      unfolding match_end_def by auto
    with ab show "\<exists>a b r3. a \<noteq> [] \<and> list_all is_word_char a \<and> b \<noteq> [] \<and> list_all is_word_char b \<and>
           s = a @ CHR ''.'' # b @ r3 \<and> match_end r3"
      by blast
  qed
  finally show ?thesis .
qed

text \<open>Definitions that evaluate the validators on a concrete document.\<close>

lemmas eval_defs = find_elem_def findall_def truthy_def py_str_def endswith_def
  validate_package_id_def re_match_package_id_def is_word_char_def match_end_def
  required_tags_def

lemmas simple_eval_defs = validate_root_def validate_defs_structure_def defs_loop_body_def
  check_def_name_def check_label_def warn_unknown_def rimworld_tags_def find_elem_def
  truthy_def endswith_def

text \<open>The errors of the Defs branch, listed.\<close>

lemma errors_defs_loop_body:
  "errors (snd (defs_loop_body child st)) = errors (snd st) @ def_name_errors child"
  by (cases st)
     (simp add: defs_loop_body_def check_label_def check_def_name_def def_name_errors_def
        split: option.splits)

lemma errors_fold_defs_loop_body:
  "errors (snd (fold defs_loop_body cs st)) = errors (snd st) @ concat (map def_name_errors cs)"
  by (induction cs arbitrary: st) (simp_all add: errors_defs_loop_body)

lemma errors_validate_defs_structure:
  "errors (validate_defs_structure root self) =
   errors self @ concat (map def_name_errors (children root))"
  using errors_fold_defs_loop_body [of "children root" "(0, self)"]
  by (auto simp: validate_defs_structure_def split: prod.splits)

lemma msg_no_defName_neq_msg_empty_defName: "msg_no_defName t \<noteq> msg_empty_defName t'"
  by (simp add: msg_no_defName_def msg_empty_defName_def)

subsection \<open>Text that does not parse\<close>



subsection \<open>Repeated calls\<close>

text \<open>
  Claim C8. A second call of \<^verbatim>\<open>validate_content\<close> on the same text, made on the validator
  object as the first call left it, returns the same boolean and leaves the same errors
  and warnings lists: the first thing a call does is to empty both lists.
\<close>

theorem C8_validate_twice:
  "validate_content fromstring (snd (validate_content fromstring self content)) content =
   validate_content fromstring self content"
  by (cases "fromstring content")
     (simp_all add: validate_content_def validate_xml_syntax_ParseError validate_xml_syntax_Parsed)

subsection \<open>Validity and warnings\<close>

text \<open>
  Claim C6. For a text that parses, \<^verbatim>\<open>validate_content\<close> returns true exactly when the
  errors list it leaves is empty. The unknown-tag walk adds no error: the errors are
  those of the root dispatch alone, and the warnings are those of the dispatch followed
  by one warning for each unknown tag of the tree. A root that is neither the metadata
  tag nor the Defs tag gives a valid result with no error; its warnings are the
  unusual-root warning and the unknown-tag warnings.
\<close>

theorem C6_valid_iff_no_errors:
  assumes "fromstring content = Parsed root"
  shows "fst (validate_content fromstring self content) =
           (errors (snd (validate_content fromstring self content)) = []) \<and>
         errors (snd (validate_content fromstring self content)) =
           errors (validate_root root \<lparr>errors = [], warnings = []\<rparr>) \<and>
         warnings (snd (validate_content fromstring self content)) =
           warnings (validate_root root \<lparr>errors = [], warnings = []\<rparr>) @
           map msg_unknown_tag (unknown_paths root []) \<and>
         (tag root \<noteq> ''ModMetaData'' \<and> tag root \<noteq> ''Defs'' \<longrightarrow>
            fst (validate_content fromstring self content) \<and>
            errors (snd (validate_content fromstring self content)) = [] \<and>
            warnings (snd (validate_content fromstring self content)) =
              msg_unusual_root (tag root) # map msg_unknown_tag (unknown_paths root []))"
  using assms
  by (simp add: validate_content_Parsed errors_check_unknown_tags warnings_check_unknown_tags
      validate_root_other)

theorem C6_valid_iff_no_errors_witness:
  "fst (validate_content (\<lambda>s. Parsed patch_doc) new_validator ''<Patch><Operation/></Patch>'') \<and>
   errors (snd (validate_content (\<lambda>s. Parsed patch_doc) new_validator
     ''<Patch><Operation/></Patch>'')) = [] \<and>
   warnings (snd (validate_content (\<lambda>s. Parsed patch_doc) new_validator
     ''<Patch><Operation/></Patch>'')) =
     [msg_unusual_root ''Patch'', msg_unknown_tag ''Patch'', msg_unknown_tag ''Patch/Operation'']"
proof -
  let ?R = "validate_content (\<lambda>s. Parsed patch_doc) new_validator ''<Patch><Operation/></Patch>''"
  have root: "tag patch_doc \<noteq> ''ModMetaData'' \<and> tag patch_doc \<noteq> ''Defs''"
    by (simp add: patch_doc_def)
  have paths: "unknown_paths patch_doc [] = [''Patch'', ''Patch/Operation'']"
    by (simp add: patch_doc_def is_unknown_tag_def rimworld_tags_def endswith_def
        current_path_of_def)
  have t: "tag patch_doc = ''Patch''"
    by (simp add: patch_doc_def)
  from C6_valid_iff_no_errors [of "\<lambda>s. Parsed patch_doc" "''<Patch><Operation/></Patch>''"
      patch_doc new_validator, OF refl] root
  have "fst ?R \<and> errors (snd ?R) = [] \<and>
        warnings (snd ?R) =
          msg_unusual_root (tag patch_doc) # map msg_unknown_tag (unknown_paths patch_doc [])"
    by blast
  then show ?thesis
    unfolding paths t by simp
qed

subsection \<open>An empty Defs document\<close>



subsection \<open>Metadata documents\<close>

text \<open>
  Claim C7. For a document whose root is the metadata tag: when \<^verbatim>\<open>name\<close>, \<^verbatim>\<open>author\<close>,
  \<^verbatim>\<open>packageId\<close> and \<^verbatim>\<open>supportedVersions\<close> are all present and the packageId text passes
  the format check, the result is valid and the errors list is empty; when one of the
  four is missing, the missing-tag error naming it is in the errors list and the result
  is invalid. The error is the Ukrainian for \<^verbatim>\<open>Missing required tag: <\<close>, the tag and
  \<^verbatim>\<open>>\<close>, so the errors for two different tags differ.
\<close>

theorem C7_metadata:
  assumes "fromstring content = Parsed root" and "tag root = ''ModMetaData''"
  shows "(find_elem root ''name'' \<noteq> None \<and> find_elem root ''author'' \<noteq> None \<and>
          find_elem root ''supportedVersions'' \<noteq> None \<and>
          (\<exists>e. find_elem root ''packageId'' = Some e \<and> validate_package_id (etext e)) \<longrightarrow>
            fst (validate_content fromstring self content) \<and>
            errors (snd (validate_content fromstring self content)) = []) \<and>
         (\<forall>t \<in> set [''name'', ''author'', ''packageId'', ''supportedVersions''].
            find_elem root t = None \<longrightarrow>
              msg_missing_tag t \<in> set (errors (snd (validate_content fromstring self content))) \<and>
              \<not> fst (validate_content fromstring self content)) \<and>
         (\<forall>t. msg_missing_tag t =
            [CHR 0xD0, CHR 0x92, CHR 0xD1, CHR 0x96, CHR 0xD0, CHR 0xB4, CHR 0xD1, CHR 0x81,
             CHR 0xD1, CHR 0x83, CHR 0xD1, CHR 0x82, CHR 0xD0, CHR 0xBD, CHR 0xD1, CHR 0x96,
             CHR 0xD0, CHR 0xB9] @ '' '' @
            [CHR 0xD0, CHR 0xBE, CHR 0xD0, CHR 0xB1, CHR 0xD0, CHR 0xBE, CHR 0xD0, CHR 0xB2,
             CHR 0x27, CHR 0xD1, CHR 0x8F, CHR 0xD0, CHR 0xB7, CHR 0xD0, CHR 0xBA, CHR 0xD0,
             CHR 0xBE, CHR 0xD0, CHR 0xB2, CHR 0xD0, CHR 0xB8, CHR 0xD0, CHR 0xB9] @ '' '' @
            [CHR 0xD1, CHR 0x82, CHR 0xD0, CHR 0xB5, CHR 0xD0, CHR 0xB3] @ '': <'' @ t @ ''>'') \<and>
         (\<forall>t t'. msg_missing_tag t = msg_missing_tag t' \<longleftrightarrow> t = t')"
proof -
  let ?E = "errors (snd (validate_content fromstring self content))"
  have E: "?E = map msg_missing_tag (filter (\<lambda>t. find_elem root t = None) required_tags) @
     (case find_elem root ''packageId'' of
        None \<Rightarrow> []
      | Some e \<Rightarrow> if validate_package_id (etext e) then [] else [msg_package_id (py_str (etext e))])"
    using assms by (rule errors_validate_content_metadata)
  have V: "fst (validate_content fromstring self content) = (?E = [])"
    using assms(1) by (rule fst_validate_content)
  have 1: "?E = []"
    if "find_elem root ''name'' \<noteq> None" "find_elem root ''author'' \<noteq> None"
       "find_elem root ''supportedVersions'' \<noteq> None"
       "\<exists>e. find_elem root ''packageId'' = Some e \<and> validate_package_id (etext e)"
    using that unfolding E by (auto simp: required_tags_def)
  have 2: "msg_missing_tag t \<in> set ?E"
    if "t \<in> set [''name'', ''author'', ''packageId'', ''supportedVersions'']"
       "find_elem root t = None" for t
    using that unfolding E by (auto simp: required_tags_def)
  have 3: "?E \<noteq> []" if "msg_missing_tag t \<in> set ?E" for t
    using that by auto
  have 4: "\<forall>t. msg_missing_tag t =
            [CHR 0xD0, CHR 0x92, CHR 0xD1, CHR 0x96, CHR 0xD0, CHR 0xB4, CHR 0xD1, CHR 0x81,
             CHR 0xD1, CHR 0x83, CHR 0xD1, CHR 0x82, CHR 0xD0, CHR 0xBD, CHR 0xD1, CHR 0x96,
             CHR 0xD0, CHR 0xB9] @ '' '' @
            [CHR 0xD0, CHR 0xBE, CHR 0xD0, CHR 0xB1, CHR 0xD0, CHR 0xBE, CHR 0xD0, CHR 0xB2,
             CHR 0x27, CHR 0xD1, CHR 0x8F, CHR 0xD0, CHR 0xB7, CHR 0xD0, CHR 0xBA, CHR 0xD0,
             CHR 0xBE, CHR 0xD0, CHR 0xB2, CHR 0xD0, CHR 0xB8, CHR 0xD0, CHR 0xB9] @ '' '' @
            [CHR 0xD1, CHR 0x82, CHR 0xD0, CHR 0xB5, CHR 0xD0, CHR 0xB3] @ '': <'' @ t @ ''>''"
    by (simp add: msg_missing_tag_def)
  have 5: "\<forall>t t'. msg_missing_tag t = msg_missing_tag t' \<longleftrightarrow> t = t'"
    by (simp add: msg_missing_tag_def)
  have "(find_elem root ''name'' \<noteq> None \<and> find_elem root ''author'' \<noteq> None \<and>
          find_elem root ''supportedVersions'' \<noteq> None \<and>
          (\<exists>e. find_elem root ''packageId'' = Some e \<and> validate_package_id (etext e)) \<longrightarrow>
            fst (validate_content fromstring self content) \<and> ?E = []) \<and>
         (\<forall>t \<in> set [''name'', ''author'', ''packageId'', ''supportedVersions''].
            find_elem root t = None \<longrightarrow>
              msg_missing_tag t \<in> set ?E \<and> \<not> fst (validate_content fromstring self content))"
    using 1 2 3 unfolding V by blast
  with 4 5 show ?thesis
    by blast
qed

theorem C7_metadata_witness:
  "fst (validate_content (\<lambda>s. Parsed (about_doc ''author.mod'')) new_validator []) \<and>
   errors (snd (validate_content (\<lambda>s. Parsed (about_doc ''author.mod'')) new_validator [])) = [] \<and>
   msg_missing_tag ''author'' \<in>
     set (errors (snd (validate_content (\<lambda>s. Parsed about_doc_no_author) new_validator []))) \<and>
   \<not> fst (validate_content (\<lambda>s. Parsed about_doc_no_author) new_validator [])"
proof -
  have tags: "tag (about_doc ''author.mod'') = ''ModMetaData''"
    "tag about_doc_no_author = ''ModMetaData''"
    by (simp_all add: about_doc_def about_doc_no_author_def)
  have complete: "find_elem (about_doc ''author.mod'') ''name'' \<noteq> None \<and>
      find_elem (about_doc ''author.mod'') ''author'' \<noteq> None \<and>
      find_elem (about_doc ''author.mod'') ''supportedVersions'' \<noteq> None \<and>
      (\<exists>e. find_elem (about_doc ''author.mod'') ''packageId'' = Some e \<and>
           validate_package_id (etext e))"
    by (simp add: about_doc_def eval_defs)
  have missing: "''author'' \<in> set [''name'', ''author'', ''packageId'', ''supportedVersions'']"
    "find_elem about_doc_no_author ''author'' = None"
    by (simp_all add: about_doc_no_author_def find_elem_def)
  from C7_metadata [of "\<lambda>s. Parsed (about_doc ''author.mod'')" "[]" "about_doc ''author.mod''"
      new_validator, OF refl tags(1), THEN conjunct1, THEN mp, OF complete]
  have 1: "fst (validate_content (\<lambda>s. Parsed (about_doc ''author.mod'')) new_validator []) \<and>
    errors (snd (validate_content (\<lambda>s. Parsed (about_doc ''author.mod'')) new_validator [])) = []" .
  from C7_metadata [of "\<lambda>s. Parsed about_doc_no_author" "[]" about_doc_no_author new_validator,
      OF refl tags(2), THEN conjunct2, THEN conjunct1, THEN bspec, OF missing(1), THEN mp,
      OF missing(2)]
  have 2: "msg_missing_tag ''author'' \<in>
      set (errors (snd (validate_content (\<lambda>s. Parsed about_doc_no_author) new_validator []))) \<and>
    \<not> fst (validate_content (\<lambda>s. Parsed about_doc_no_author) new_validator [])" .
  from 1 2 show ?thesis by blast
qed

subsection \<open>The packageId format\<close>



text \<open>
  Claim C3, as the code has it. The format check accepts exactly the texts made of two
  non-empty segments of ASCII letters of either case, digits and underscores, joined by
  one dot and optionally followed by one final newline. Upper-case letters are
  accepted: the character class of the pattern is \<^verbatim>\<open>[a-zA-Z0-9_]\<close>.
\<close>

theorem C3_package_id_format:
  "validate_package_id p \<longleftrightarrow>
   (\<exists>a b. a \<noteq> [] \<and> b \<noteq> [] \<and> list_all is_word_char a \<and> list_all is_word_char b \<and>
          (p = Some (a @ ''.'' @ b) \<or> p = Some (a @ ''.'' @ b @ [CHR 0x0A])))"
proof (cases p)
  case None
  then show ?thesis by (simp add: validate_package_id_def truthy_def)
next
  case (Some s)
  show ?thesis
  proof (cases "s = []")
    case True
    with Some show ?thesis by (simp add: validate_package_id_def truthy_def)
  next
    case False
    with Some show ?thesis
      by (simp add: validate_package_id_def truthy_def py_str_def re_match_package_id_iff)
  qed
qed

text \<open>
  The claim as the specification words it fails: \<^verbatim>\<open>Author.Mod\<close> has an upper-case letter
  in each segment, passes the format check, and a metadata document carrying it is
  valid with no error.
\<close>

theorem C3_uppercase_accepted:
  "validate_package_id (Some ''Author.Mod'') \<and>
   validate_content (\<lambda>s. Parsed (about_doc ''Author.Mod'')) new_validator [] =
     (True, \<lparr>errors = [], warnings = []\<rparr>)"
  by (simp add: validate_content_Parsed validate_root_def validate_mod_metadata_def
      check_required_def check_package_id_def check_supported_versions_def
      warn_unknown_def rimworld_tags_def about_doc_def new_validator_def eval_defs)

text \<open>
  Claim C10. A text made of two non-empty word segments joined by a dot and followed by
  one newline passes the format check, and a metadata document whose packageId element
  has that text gets no packageId-format error.
\<close>

theorem C10_trailing_newline:
  assumes "a \<noteq> []" and "b \<noteq> []" and "list_all is_word_char a" and "list_all is_word_char b"
  shows "validate_package_id (Some (a @ ''.'' @ b @ [CHR 0x0A])) \<and>
         (fromstring content = Parsed root \<and> tag root = ''ModMetaData'' \<and>
          find_elem root ''packageId'' = Some e \<and> etext e = Some (a @ ''.'' @ b @ [CHR 0x0A]) \<longrightarrow>
            (\<forall>p. msg_package_id p \<notin> set (errors (snd (validate_content fromstring self content)))))"
proof -
  have "re_match_package_id (a @ ''.'' @ b @ [CHR 0x0A])"
    unfolding re_match_package_id_iff using assms by blast
  then have ok: "validate_package_id (Some (a @ ''.'' @ b @ [CHR 0x0A]))"
    by (simp add: validate_package_id_def truthy_def py_str_def)
  have "msg_package_id p \<notin> set (errors (snd (validate_content fromstring self content)))"
    if "fromstring content = Parsed root" "tag root = ''ModMetaData''"
      "find_elem root ''packageId'' = Some e" "etext e = Some (a @ ''.'' @ b @ [CHR 0x0A])" for p
    using that ok
    by (auto simp: errors_validate_content_metadata msg_missing_tag_neq_msg_package_id
        msg_missing_tag_neq_msg_package_id [symmetric])
  with ok show ?thesis by blast
qed

theorem C10_trailing_newline_witness:
  "validate_package_id (Some (''author.mod'' @ [CHR 0x0A])) \<and>
   msg_package_id (''author.mod'' @ [CHR 0x0A]) \<notin>
     set (errors (snd (validate_content
       (\<lambda>s. Parsed (about_doc (''author.mod'' @ [CHR 0x0A]))) new_validator [])))"
  using C10_trailing_newline [of "''author''" "''mod''"
      "\<lambda>s. Parsed (about_doc (''author.mod'' @ [CHR 0x0A]))" "[]"
      "about_doc (''author.mod'' @ [CHR 0x0A])"
      "Element ''packageId'' (Some (''author.mod'' @ [CHR 0x0A])) []" new_validator]
  by (simp add: about_doc_def find_elem_def is_word_char_def)

section \<open>Properties of the enhanced validator\<close>

subsection \<open>Auxiliary facts\<close>

lemma fold_keeps_snd:
  assumes "\<And>x st. x \<in> set xs \<Longrightarrow> g (snd (f x st)) = g (snd st)"
  shows "g (snd (fold f xs st)) = g (snd st)"
  using assms by (induction xs arbitrary: st) simp_all

lemma duplicate_step_def_name_of:
  "duplicate_step e (seen, r) =
     (case def_name_of e of
        None \<Rightarrow> (seen, r)
      | Some n \<Rightarrow>
          if n \<in> set seen
          then (seen, r\<lparr>errors := errors r @ [emsg_duplicate n], valid := False\<rparr>)
          else (seen @ [n], r))"
  by (auto simp: duplicate_step_def def_name_of_def py_str_def truthy_def split: option.splits)

lemma snd_fold_duplicate_step:
  "snd (fold duplicate_step es (seen, r)) =
     r\<lparr>errors := errors r @ map emsg_duplicate (repeats seen (List.map_filter def_name_of es)),
       valid := (valid r \<and> repeats seen (List.map_filter def_name_of es) = [])\<rparr>"
proof (induction es arbitrary: seen r)
  case Nil
  then show ?case by (simp add: map_filter_simps)
next
  case (Cons e es)
  show ?case
  proof (cases "def_name_of e")
    case None
    then show ?thesis
      by (simp add: duplicate_step_def_name_of Cons.IH map_filter_simps)
  next
    case (Some n)
    then show ?thesis
      by (simp add: duplicate_step_def_name_of Cons.IH map_filter_simps)
  qed
qed

lemma count_list_repeats:
  "count_list (repeats seen ns) v =
     (if v \<in> set seen then count_list ns v else count_list ns v - 1)"
  by (induction ns arbitrary: seen) auto

lemma emsg_duplicate_inj: "emsg_duplicate a = emsg_duplicate b \<longleftrightarrow> a = b"
  by (simp add: emsg_duplicate_def)

lemma count_list_map_emsg_duplicate:
  "count_list (map emsg_duplicate ns) (emsg_duplicate v) = count_list ns v"
  by (induction ns) (simp_all add: emsg_duplicate_inj)

lemma takeWhile_no_sep: "c \<notin> set t \<Longrightarrow> takeWhile (\<lambda>x. x \<noteq> c) (t @ c # r) = t"
  by (induction t) auto

text \<open>The tags of a parsed document are apart from the duplicate message.\<close>

lemma name_tag_apart: "CHR '' '' \<notin> set t \<Longrightarrow> tag_apart t"
proof -
  assume a: "CHR '' '' \<notin> set t"
  have "CHR '' '' \<in> set duplicate_word"
    by (simp add: duplicate_word_def)
  moreover have "set (take 17 t) \<subseteq> set t"
    by (rule set_take_subset)
  ultimately show ?thesis
    using a unfolding tag_apart_def by auto
qed

lemma qualified_tag_apart: "tag_apart (CHR ''{'' # r)"
  by (simp add: tag_apart_def duplicate_word_def)

lemma other_letter_tag_apart: "take 2 t \<noteq> [CHR 0xD0, CHR 0x94] \<Longrightarrow> tag_apart t"
proof -
  assume a: "take 2 t \<noteq> [CHR 0xD0, CHR 0x94]"
  have "take 2 (take 17 t) = take 2 t"
    by simp
  moreover have "take 2 duplicate_word = [CHR 0xD0, CHR 0x94]"
    by (simp add: duplicate_word_def)
  ultimately show ?thesis
    using a unfolding tag_apart_def by metis
qed

lemma space_message_neq_duplicate:
  assumes "tag_apart t" and "x \<noteq> CHR ''d''"
  shows "t @ CHR '' '' # x # rest \<noteq> emsg_duplicate v"
proof
  let ?P = "\<lambda>c. c \<noteq> CHR '' ''"
  let ?B = "[CHR 0xD0, CHR 0x94, CHR 0xD1, CHR 0x83, CHR 0xD0, CHR 0xB1, CHR 0xD0, CHR 0xBB,
     CHR 0xD1, CHR 0x96, CHR 0xD0, CHR 0xBA, CHR 0xD0, CHR 0xB0, CHR 0xD1, CHR 0x82]"
  assume eq: "t @ CHR '' '' # x # rest = emsg_duplicate v"
  have D: "takeWhile ?P (emsg_duplicate v) = ?B"
    by (simp add: emsg_duplicate_def)
  show False
  proof (cases "CHR '' '' \<in> set t")
    case False
    then have "takeWhile ?P (t @ CHR '' '' # x # rest) = t"
      by (simp add: takeWhile_no_sep)
    with eq D have "t = ?B" by simp
    with eq assms(2) show False
      by (simp add: emsg_duplicate_def)
  next
    case True
    then have "takeWhile ?P (t @ CHR '' '' # x # rest) = takeWhile ?P t"
      by (simp add: takeWhile_append1)
    with eq D have tw: "takeWhile ?P t = ?B" by simp
    from True have ne: "dropWhile ?P t \<noteq> []"
      by (auto simp: dropWhile_eq_Nil_conv)
    then have "\<not> ?P (hd (dropWhile ?P t))"
      by (rule hd_dropWhile)
    with ne obtain r where "dropWhile ?P t = CHR '' '' # r"
      by (cases "dropWhile ?P t") auto
    moreover have "t = takeWhile ?P t @ dropWhile ?P t"
      by simp
    ultimately have "t = ?B @ CHR '' '' # r"
      using tw by simp
    then have "take 17 t = duplicate_word"
      by (simp add: duplicate_word_def)
    with assms(1) show False
      by (simp add: tag_apart_def)
  qed
qed

lemma emsg_no_defName_neq_duplicate:
  assumes "tag_apart t"
  shows "emsg_no_defName t \<noteq> emsg_duplicate v"
  using space_message_neq_duplicate [OF assms, of "CHR 0xD0" _ v]
  by (simp add: emsg_no_defName_def)

lemma emsg_empty_defName_neq_duplicate:
  assumes "tag_apart t"
  shows "emsg_empty_defName t \<noteq> emsg_duplicate v"
  using space_message_neq_duplicate [OF assms, of "CHR 0xD0" _ v]
  by (simp add: emsg_empty_defName_def)

lemma errors_check_expected_type: "errors (check_expected_type t x r) = errors r"
  by (simp add: check_expected_type_def)

lemma errors_check_recommended: "errors (check_recommended e r) = errors r"
  by (simp add: check_recommended_def Let_def)

lemma errors_check_type_children: "errors (check_type_children e r) = errors r"
  by (simp add: check_type_children_def fold_keeps [where g = errors] split: option.splits)

lemma count_check_mandatory:
  assumes "tag_apart (tag e)"
  shows "count_list (errors (check_mandatory e r)) (emsg_duplicate v) =
         count_list (errors r) (emsg_duplicate v)"
  using emsg_no_defName_neq_duplicate [OF assms, of v]
    emsg_empty_defName_neq_duplicate [OF assms, of v]
  by (simp add: check_mandatory_def split: option.splits)

lemma count_validate_single_def:
  assumes "tag_apart (tag e)"
  shows "count_list (errors (validate_single_def e r x)) (emsg_duplicate v) =
         count_list (errors r) (emsg_duplicate v)"
  by (simp add: validate_single_def_def errors_check_type_children errors_check_recommended
      count_check_mandatory [OF assms] errors_check_expected_type)

lemma count_enhanced_validate_defs_structure:
  assumes "\<And>c. c \<in> set (children root) \<Longrightarrow> tag_apart (tag c)"
  shows "count_list (errors (enhanced_validate_defs_structure root r)) (emsg_duplicate v) =
         count_list (errors r) (emsg_duplicate v)"
proof -
  have "count_list (errors (snd (fold enhanced_defs_loop_body (children root) (0, r))))
          (emsg_duplicate v) =
        count_list (errors (snd (0::nat, r))) (emsg_duplicate v)"
    by (rule fold_keeps_snd [where g = "\<lambda>r. count_list (errors r) (emsg_duplicate v)"])
       (auto simp: enhanced_defs_loop_body_def count_validate_single_def assms split: prod.splits)
  then show ?thesis
    by (auto simp: enhanced_validate_defs_structure_def split: prod.splits)
qed

lemma errors_validate_patch_structure: "errors (validate_patch_structure root r) = errors r"
proof -
  have "errors (snd (fold patch_loop_body (children root) (0, r))) = errors (snd (0::nat, r))"
    by (rule fold_keeps_snd [where g = errors])
       (auto simp: patch_loop_body_def split: prod.splits)
  then show ?thesis
    by (auto simp: validate_patch_structure_def split: prod.splits)
qed

lemma errors_fold_empty_element_step: "errors (fold empty_element_step es r) = errors r"
  by (rule fold_keeps) (simp add: empty_element_step_def)

lemma self_in_iter: "e \<in> set (iter e)"
  by (cases e) simp

lemma children_in_iter: "c \<in> set (children root) \<Longrightarrow> c \<in> set (iter root)"
  by (cases root) (auto intro: self_in_iter)

lemma tags_apart_children:
  "tags_apart root \<Longrightarrow> c \<in> set (children root) \<Longrightarrow> tag_apart (tag c)"
  using children_in_iter [of c root] by (auto simp: tags_apart_def list_all_iff)

lemma count_structure_dispatch:
  assumes "tags_apart root"
  shows "count_list (errors (structure_dispatch root r)) (emsg_duplicate v) =
         count_list (errors r) (emsg_duplicate v)"
  by (simp add: structure_dispatch_def errors_validate_patch_structure
      count_enhanced_validate_defs_structure tags_apart_children [OF assms])

lemma errors_check_root_tag: "errors (check_root_tag root r) = errors r"
  by (simp add: check_root_tag_def)

lemma errors_check_common_issues:
  "errors (check_common_issues root r) =
   errors r @ map emsg_duplicate (repeats [] (def_names root))"
  by (simp add: check_common_issues_def snd_fold_duplicate_step def_names_def
      errors_fold_empty_element_step)

lemma valid_check_common_issues:
  "valid (check_common_issues root r) \<Longrightarrow> repeats [] (def_names root) = []"
  by (simp add: check_common_issues_def snd_fold_duplicate_step def_names_def)

lemmas enhanced_eval_defs = enhanced_validate_rimworld_structure_def check_root_tag_def
  structure_dispatch_def enhanced_validate_defs_structure_def enhanced_defs_loop_body_def
  validate_single_def_def check_expected_type_def check_mandatory_def check_recommended_def
  check_type_children_def enhanced_rimworld_tags_def check_common_issues_def
  empty_element_step_def duplicate_step_def find_elem_def truthy_def py_str_def endswith_def

subsection \<open>Repeated defName values\<close>

text \<open>
  Claim C1, as the code has it. Only the enhanced validator tracks \<^verbatim>\<open>defName\<close> values.
  For a text that parses and passed its syntax check, and whose tags are apart from
  the duplicate message as the tags of every parsed document are, the number of errors
  \<^verbatim>\<open>Duplicate defName: v\<close> that \<^verbatim>\<open>validate_rimworld_structure\<close> adds is the number of
  elements with a tag ending in \<^verbatim>\<open>Def\<close> and the non-empty \<^verbatim>\<open>defName\<close> text \<open>v\<close>, less
  one: every occurrence after the first is reported. So a document in which exactly two
  definitions carry \<open>v\<close> gets exactly one such error, and whenever a value occurs twice
  or more the result is not valid. The error is the Ukrainian for
  \<^verbatim>\<open>Duplicate defName: \<close> followed by the value.
\<close>

theorem C1_duplicates_enhanced:
  assumes "fromstring content = Parsed root" and "valid syntax_result" and "tags_apart root"
  shows "count_list (errors (enhanced_validate_rimworld_structure fromstring syntax_result content))
           (emsg_duplicate v) =
         count_list (errors syntax_result) (emsg_duplicate v) +
           (count_list (def_names root) v - 1) \<and>
         (2 \<le> count_list (def_names root) v \<longrightarrow>
            \<not> valid (enhanced_validate_rimworld_structure fromstring syntax_result content)) \<and>
         (\<forall>n. emsg_duplicate n =
            [CHR 0xD0, CHR 0x94, CHR 0xD1, CHR 0x83, CHR 0xD0, CHR 0xB1, CHR 0xD0, CHR 0xBB,
             CHR 0xD1, CHR 0x96, CHR 0xD0, CHR 0xBA, CHR 0xD0, CHR 0xB0, CHR 0xD1, CHR 0x82] @
            '' defName: '' @ n)"
proof -
  let ?r = "structure_dispatch root (check_root_tag root syntax_result)"
  have R: "enhanced_validate_rimworld_structure fromstring syntax_result content =
           check_common_issues root ?r"
    using assms(1,2) by (simp add: enhanced_validate_rimworld_structure_def)
  have "count_list (errors ?r) (emsg_duplicate v) =
        count_list (errors syntax_result) (emsg_duplicate v)"
    by (simp add: count_structure_dispatch [OF assms(3)] errors_check_root_tag)
  then have count: "count_list (errors (check_common_issues root ?r)) (emsg_duplicate v) =
        count_list (errors syntax_result) (emsg_duplicate v) +
          (count_list (def_names root) v - 1)"
    by (simp add: errors_check_common_issues count_list_map_emsg_duplicate count_list_repeats)
  have "\<not> valid (check_common_issues root ?r)" if "2 \<le> count_list (def_names root) v"
  proof
    assume "valid (check_common_issues root ?r)"
    then have "repeats [] (def_names root) = []"
      by (rule valid_check_common_issues)
    then have "count_list (repeats [] (def_names root)) v = 0"
      by simp
    with that show False
      by (simp add: count_list_repeats)
  qed
  moreover have "\<forall>n. emsg_duplicate n =
      [CHR 0xD0, CHR 0x94, CHR 0xD1, CHR 0x83, CHR 0xD0, CHR 0xB1, CHR 0xD0, CHR 0xBB,
       CHR 0xD1, CHR 0x96, CHR 0xD0, CHR 0xBA, CHR 0xD0, CHR 0xB0, CHR 0xD1, CHR 0x82] @
      '' defName: '' @ n"
    by (simp add: emsg_duplicate_def)
  ultimately show ?thesis
    using count unfolding R by blast
qed

theorem C1_duplicates_enhanced_witness:
  "count_list (errors (enhanced_validate_rimworld_structure
      (\<lambda>s. Parsed (defs_doc [''A'', ''A''])) syntax_ok [])) (emsg_duplicate ''A'') = 1 \<and>
   \<not> valid (enhanced_validate_rimworld_structure
      (\<lambda>s. Parsed (defs_doc [''A'', ''A''])) syntax_ok []) \<and>
   count_list (errors (enhanced_validate_rimworld_structure
      (\<lambda>s. Parsed (qualified_defs_doc [''A'', ''A''])) syntax_ok [])) (emsg_duplicate ''A'') = 1 \<and>
   \<not> valid (enhanced_validate_rimworld_structure
      (\<lambda>s. Parsed (qualified_defs_doc [''A'', ''A''])) syntax_ok [])"
proof -
  have apart: "tags_apart (defs_doc [''A'', ''A''])"
    "tags_apart (qualified_defs_doc [''A'', ''A''])"
    by (simp_all add: tags_apart_def tag_apart_def duplicate_word_def defs_doc_def thing_def_def
        qualified_defs_doc_def qualified_thing_def_def)
  have names: "def_names (defs_doc [''A'', ''A'']) = [''A'', ''A'']"
    "def_names (qualified_defs_doc [''A'', ''A'']) = [''A'', ''A'']"
    by (simp_all add: def_names_def defs_doc_def thing_def_def qualified_defs_doc_def
        qualified_thing_def_def def_name_of_def map_filter_simps endswith_def find_elem_def
        truthy_def)
  have ok: "valid syntax_ok" "errors syntax_ok = []"
    by (simp_all add: syntax_ok_def)
  note inst1 = C1_duplicates_enhanced [of "\<lambda>s. Parsed (defs_doc [''A'', ''A''])" "[]"
      "defs_doc [''A'', ''A'']" syntax_ok "''A''", OF refl ok(1) apart(1), unfolded names ok(2)]
  note inst2 = C1_duplicates_enhanced [of "\<lambda>s. Parsed (qualified_defs_doc [''A'', ''A''])"
      "[]" "qualified_defs_doc [''A'', ''A'']" syntax_ok "''A''", OF refl ok(1) apart(2),
      unfolded names ok(2)]
  from inst1 [THEN conjunct1] inst1 [THEN conjunct2, THEN conjunct1]
  have 1: "count_list (errors (enhanced_validate_rimworld_structure
      (\<lambda>s. Parsed (defs_doc [''A'', ''A''])) syntax_ok [])) (emsg_duplicate ''A'') = 1 \<and>
   \<not> valid (enhanced_validate_rimworld_structure
      (\<lambda>s. Parsed (defs_doc [''A'', ''A''])) syntax_ok [])"
    by simp
  from inst2 [THEN conjunct1] inst2 [THEN conjunct2, THEN conjunct1]
  have 2: "count_list (errors (enhanced_validate_rimworld_structure
      (\<lambda>s. Parsed (qualified_defs_doc [''A'', ''A''])) syntax_ok [])) (emsg_duplicate ''A'') = 1 \<and>
   \<not> valid (enhanced_validate_rimworld_structure
      (\<lambda>s. Parsed (qualified_defs_doc [''A'', ''A''])) syntax_ok [])"
    by simp
  from 1 2 show ?thesis by simp
qed

text \<open>
  The claim as the specification words it fails. The simple validator has no check for
  repeated values: a \<^verbatim>\<open>Defs\<close> document with two definitions named \<^verbatim>\<open>A\<close> is valid there,
  with no error. The enhanced validator reports two errors, not one, when three
  definitions are named \<^verbatim>\<open>A\<close>.
\<close>

theorem C1_duplicates_as_stated_fail:
  "validate_content (\<lambda>s. Parsed (defs_doc [''A'', ''A''])) new_validator [] =
     (True, \<lparr>errors = [], warnings = []\<rparr>) \<and>
   errors (enhanced_validate_rimworld_structure
      (\<lambda>s. Parsed (defs_doc [''A'', ''A'', ''A''])) syntax_ok []) =
     [emsg_duplicate ''A'', emsg_duplicate ''A'']"
proof -
  have "validate_content (\<lambda>s. Parsed (defs_doc [''A'', ''A''])) new_validator [] =
     (True, \<lparr>errors = [], warnings = []\<rparr>)"
    by (simp add: validate_content_Parsed defs_doc_def thing_def_def simple_eval_defs)
  moreover have "strip ''A'' = ''A''"
    by (simp add: strip_def ws_suffix_len_def ascii_space_def)
  then have "errors (enhanced_validate_rimworld_structure
      (\<lambda>s. Parsed (defs_doc [''A'', ''A'', ''A''])) syntax_ok []) =
     [emsg_duplicate ''A'', emsg_duplicate ''A'']"
    by (simp add: defs_doc_def thing_def_def syntax_ok_def enhanced_eval_defs)
  ultimately show ?thesis by simp
qed

subsection \<open>Missing and empty defName\<close>

text \<open>
  In the simple validator a child of the \<^verbatim>\<open>Defs\<close> root without a \<^verbatim>\<open>defName\<close> child gives
  the no-defName error, a child whose \<^verbatim>\<open>defName\<close> has no text or the empty text gives the
  empty-defName error, the two messages differ, and either makes the result invalid.
\<close>

lemma simple_defName_errors:
  assumes "fromstring content = Parsed root" and "tag root = ''Defs''"
    and "child \<in> set (children root)"
  shows "(find_elem child ''defName'' = None \<longrightarrow>
            msg_no_defName (tag child) \<in> set (errors (snd (validate_content fromstring self content))) \<and>
            \<not> fst (validate_content fromstring self content)) \<and>
         (\<forall>d. find_elem child ''defName'' = Some d \<and> (etext d = None \<or> etext d = Some []) \<longrightarrow>
            msg_empty_defName (tag child) \<in> set (errors (snd (validate_content fromstring self content))) \<and>
            \<not> fst (validate_content fromstring self content))"
proof -
  let ?E = "errors (snd (validate_content fromstring self content))"
  have E: "?E = concat (map def_name_errors (children root))"
    using assms(1,2)
    by (simp add: validate_content_Parsed errors_check_unknown_tags validate_root_def
        errors_validate_defs_structure)
  have V: "fst (validate_content fromstring self content) = (?E = [])"
    using assms(1) by (rule fst_validate_content)
  have sub: "set (def_name_errors child) \<subseteq> set ?E"
    unfolding E using assms(3) by auto
  have 1: "msg_no_defName (tag child) \<in> set ?E" if "find_elem child ''defName'' = None"
    using sub that by (simp add: def_name_errors_def)
  have 2: "msg_empty_defName (tag child) \<in> set ?E"
    if "find_elem child ''defName'' = Some d" "etext d = None \<or> etext d = Some []" for d
    using sub that by (auto simp: def_name_errors_def truthy_def)
  have 3: "?E \<noteq> []" if "m \<in> set ?E" for m
    using that by auto
  show ?thesis
    unfolding V using 1 2 3 by blast
qed

text \<open>
  In the enhanced validator a definition without a \<^verbatim>\<open>defName\<close> child and a definition
  whose \<^verbatim>\<open>defName\<close> text is only white space each give their error and an invalid result.
\<close>

lemma enhanced_missing_defName:
  assumes "find_elem e ''defName'' = None"
  shows "errors (check_mandatory e r) = errors r @ [emsg_no_defName (tag e)] \<and>
         \<not> valid (check_mandatory e r)"
  using assms by (simp add: check_mandatory_def)

lemma enhanced_blank_defName:
  assumes "find_elem e ''defName'' = Some d" and "etext d = Some s" and "strip s = []"
  shows "errors (check_mandatory e r) = errors r @ [emsg_empty_defName (tag e)] \<and>
         \<not> valid (check_mandatory e r)"
  using assms by (simp add: check_mandatory_def truthy_def)

text \<open>
  Claim C2 at the input where the simple validator departs from it:
  \<^verbatim>\<open><Defs><ThingDef><defName> </defName><label>l</label>\<close>
  \<^verbatim>\<open><description>d</description></ThingDef></Defs>\<close>. The \<^verbatim>\<open>defName\<close> text is one space.
  The simple validator tests only \<^verbatim>\<open>not def_name_elem.text\<close>, so it reports nothing and
  returns true; the enhanced validator, which also strips the text, reports the empty
  \<^verbatim>\<open>defName\<close>.
\<close>

theorem C2_blank_defName_accepted:
  "validate_content (\<lambda>s. Parsed (defs_doc ['' ''])) new_validator [] =
     (True, \<lparr>errors = [], warnings = []\<rparr>) \<and>
   errors (enhanced_validate_rimworld_structure (\<lambda>s. Parsed (defs_doc ['' ''])) syntax_ok []) =
     [emsg_empty_defName ''ThingDef'']"
proof -
  have "validate_content (\<lambda>s. Parsed (defs_doc ['' ''])) new_validator [] =
     (True, \<lparr>errors = [], warnings = []\<rparr>)"
    by (simp add: validate_content_Parsed defs_doc_def thing_def_def simple_eval_defs)
  moreover have "strip '' '' = []"
    by (simp add: strip_def ws_suffix_len_def ascii_space_def)
  then have "errors (enhanced_validate_rimworld_structure (\<lambda>s. Parsed (defs_doc ['' ''])) syntax_ok []) =
     [emsg_empty_defName ''ThingDef'']"
    by (simp add: defs_doc_def thing_def_def syntax_ok_def enhanced_eval_defs)
  ultimately show ?thesis by simp
qed

end
